theory Spec2Isabelle
  imports Main
begin

section \<open>The interpreter as seen from torch/csrc/Exceptions.h\<close>

text \<open>
  The header talks to the interpreter through a handful of C API calls: the error
  indicator (\<open>PyErr_Fetch\<close>, \<open>PyErr_Restore\<close>, \<open>PyErr_SetString\<close>, \<open>PyErr_Clear\<close>),
  reference counts (\<open>Py_XINCREF\<close>, \<open>Py_XDECREF\<close>) and the global interpreter lock
  (\<open>AutoGIL\<close>). A \<open>PyObject*\<close> is a \<open>pyobj option\<close>: \<open>None\<close> is \<open>nullptr\<close>.
\<close>

datatype pyobj =
    PyExc_IndexError
  | PyExc_TypeError
  | PyExc_ValueError
  | PyExc_RuntimeError
  | PyExc_Warning string
  | PyStr string
  | PyObj nat

type_synonym handle = "pyobj option"

text \<open>\<open>struct python_error\<close>: the three fields \<open>type\<close>, \<open>value\<close>, \<open>traceback\<close>.\<close>

record python_error =
  ptype :: handle
  pvalue :: handle
  ptraceback :: handle

text \<open>A native warning as it is buffered: a category and a message.\<close>

record warning =
  category :: string
  message :: string

text \<open>
  \<open>c10::Warning::handler_t\<close>: the process-wide handler is either the buffering handler
  that \<open>EnforceWarningBuffer\<close> installs or some other handler, known only by its identity.
\<close>

datatype handler = Buffering | Handler nat

text \<open>Every call into the interpreter or the warning machinery leaves an event.\<close>

datatype event =
    GilAcquire
  | GilRelease
  | IncRef pyobj
  | DecRef pyobj
  | ErrFetch
  | ErrRestore handle handle handle
  | ForeignWarn warning
  | NativeWarn nat warning

record world =
  curexc_type :: handle
  curexc_value :: handle
  curexc_traceback :: handle
  ob_refcnt :: "pyobj \<Rightarrow> int"
  gil_depth :: nat
  warning_handler :: handler
  warning_buffer :: "warning list"
  trace :: "event list"

definition logev :: "event \<Rightarrow> world \<Rightarrow> world" where
  "logev ev s = s\<lparr>trace := trace s @ [ev]\<rparr>"

text \<open>\<open>AutoGIL gil;\<close> acquires the lock where it is declared and releases it at scope exit.\<close>

definition AutoGIL_acquire :: "world \<Rightarrow> world" where
  "AutoGIL_acquire s = logev GilAcquire (s\<lparr>gil_depth := Suc (gil_depth s)\<rparr>)"

definition AutoGIL_release :: "world \<Rightarrow> world" where
  "AutoGIL_release s = logev GilRelease (s\<lparr>gil_depth := gil_depth s - 1\<rparr>)"

fun Py_XINCREF :: "handle \<Rightarrow> world \<Rightarrow> world" where
  "Py_XINCREF None s = s"
| "Py_XINCREF (Some p) s = logev (IncRef p) (s\<lparr>ob_refcnt := (ob_refcnt s)(p := ob_refcnt s p + 1)\<rparr>)"

fun Py_XDECREF :: "handle \<Rightarrow> world \<Rightarrow> world" where
  "Py_XDECREF None s = s"
| "Py_XDECREF (Some p) s = logev (DecRef p) (s\<lparr>ob_refcnt := (ob_refcnt s)(p := ob_refcnt s p - 1)\<rparr>)"

text \<open>
  \<open>PyErr_Fetch(&type, &value, &traceback)\<close>: hands the indicator's three references to
  the caller and clears the indicator; no reference count changes.
\<close>

definition PyErr_Fetch :: "world \<Rightarrow> python_error \<times> world" where
  "PyErr_Fetch s =
     (\<lparr>ptype = curexc_type s, pvalue = curexc_value s, ptraceback = curexc_traceback s\<rparr>,
      logev ErrFetch (s\<lparr>curexc_type := None, curexc_value := None, curexc_traceback := None\<rparr>))"

text \<open>
  \<open>PyErr_Restore(type, value, traceback)\<close>: steals the three references, makes them the
  indicator, and releases what the indicator held before.
\<close>

definition PyErr_Restore :: "handle \<Rightarrow> handle \<Rightarrow> handle \<Rightarrow> world \<Rightarrow> world" where
  "PyErr_Restore t v tb s =
     Py_XDECREF (curexc_traceback s) (Py_XDECREF (curexc_value s) (Py_XDECREF (curexc_type s)
       (logev (ErrRestore t v tb) (s\<lparr>curexc_type := t, curexc_value := v, curexc_traceback := tb\<rparr>))))"

text \<open>
  \<open>PyErr_SetString(type, msg)\<close>: a new string object for the message, a new reference to
  the type, installed with no traceback.
\<close>

definition PyErr_SetString :: "pyobj \<Rightarrow> string \<Rightarrow> world \<Rightarrow> world" where
  "PyErr_SetString t msg s =
     PyErr_Restore (Some t) (Some (PyStr msg)) None (Py_XINCREF (Some (PyStr msg)) (Py_XINCREF (Some t) s))"

definition PyErr_Clear :: "world \<Rightarrow> world" where
  "PyErr_Clear s = PyErr_Restore None None None s"

definition PyErr_Occurred :: "world \<Rightarrow> bool" where
  "PyErr_Occurred s = (curexc_type s \<noteq> None)"

section \<open>\<open>struct python_error\<close>\<close>

text \<open>\<open>python_error()\<close>: all three fields \<open>nullptr\<close>.\<close>

definition python_error_init :: python_error where
  "python_error_init = \<lparr>ptype = None, pvalue = None, ptraceback = None\<rparr>"

text \<open>\<open>python_error(const python_error &other)\<close>: copies the pointers, then increments under the lock.\<close>

definition python_error_copy :: "python_error \<Rightarrow> world \<Rightarrow> python_error \<times> world" where
  "python_error_copy other s =
     (let this = \<lparr>ptype = ptype other, pvalue = pvalue other, ptraceback = ptraceback other\<rparr>;
          s1 = AutoGIL_acquire s;
          s2 = Py_XINCREF (ptype this) s1;
          s3 = Py_XINCREF (pvalue this) s2;
          s4 = Py_XINCREF (ptraceback this) s3
      in (this, AutoGIL_release s4))"

text \<open>
  \<open>python_error(python_error&& other)\<close>: returns the new instance and \<open>other\<close> as the
  constructor leaves it; the world is passed through untouched, as the body makes no call.
\<close>

definition python_error_move :: "python_error \<Rightarrow> world \<Rightarrow> (python_error \<times> python_error) \<times> world" where
  "python_error_move other s =
     (let this = \<lparr>ptype = ptype other, pvalue = pvalue other, ptraceback = ptraceback other\<rparr>;
          other1 = other\<lparr>ptype := None\<rparr>;
          other2 = other1\<lparr>pvalue := None\<rparr>;
          other3 = other2\<lparr>ptraceback := None\<rparr>
      in ((this, other3), s))"

text \<open>\<open>~python_error()\<close>.\<close>

definition python_error_dtor :: "python_error \<Rightarrow> world \<Rightarrow> world" where
  "python_error_dtor this s =
     (if ptype this \<noteq> None \<or> pvalue this \<noteq> None \<or> ptraceback this \<noteq> None then
        (let s1 = AutoGIL_acquire s;
             s2 = Py_XDECREF (ptype this) s1;
             s3 = Py_XDECREF (pvalue this) s2;
             s4 = Py_XDECREF (ptraceback this) s3
         in AutoGIL_release s4)
      else s)"

text \<open>\<open>python_error::persist()\<close>: returns \<open>*this\<close> as the call leaves it, and the world.\<close>

definition persist :: "python_error \<Rightarrow> world \<Rightarrow> python_error \<times> world" where
  "persist this s =
     (if ptype this \<noteq> None then (this, s)
      else
        (let s1 = AutoGIL_acquire s;
             s2 = Py_XDECREF (ptype this) s1;
             s3 = Py_XDECREF (pvalue this) s2;
             s4 = Py_XDECREF (ptraceback this) s3;
             (fetched, s5) = PyErr_Fetch s4
         in (fetched, AutoGIL_release s5)))"

text \<open>\<open>python_error::restore()\<close>.\<close>

definition restore :: "python_error \<Rightarrow> world \<Rightarrow> python_error \<times> world" where
  "restore this s =
     (if ptype this = None then (this, s)
      else
        (let s1 = AutoGIL_acquire s;
             s2 = Py_XINCREF (ptype this) s1;
             s3 = Py_XINCREF (pvalue this) s2;
             s4 = Py_XINCREF (ptraceback this) s3;
             s5 = PyErr_Restore (ptype this) (pvalue this) (ptraceback this) s4
         in (this, AutoGIL_release s5)))"

text \<open>How many of the three fields of an instance point to a given object.\<close>

definition holds :: "python_error \<Rightarrow> pyobj \<Rightarrow> int" where
  "holds e p =
     (if ptype e = Some p then 1 else 0) + (if pvalue e = Some p then 1 else 0) +
     (if ptraceback e = Some p then 1 else 0)"

text \<open>The objects behind the handles of a list that are not \<open>nullptr\<close>, in order.\<close>

fun nonnull :: "handle list \<Rightarrow> pyobj list" where
  "nonnull [] = []"
| "nonnull (None # hs) = nonnull hs"
| "nonnull (Some p # hs) = p # nonnull hs"

text \<open>The error indicator of a world, read as a triple.\<close>

definition indicator :: "world \<Rightarrow> python_error" where
  "indicator s = \<lparr>ptype = curexc_type s, pvalue = curexc_value s, ptraceback = curexc_traceback s\<rparr>"

text \<open>
  Whether every event of a trace that touches a reference count or the error indicator
  happens while the lock is held, starting from a given depth of the lock.
\<close>

fun guarded :: "nat \<Rightarrow> event list \<Rightarrow> bool" where
  "guarded d [] = True"
| "guarded d (GilAcquire # evs) = guarded (Suc d) evs"
| "guarded d (GilRelease # evs) = guarded (d - 1) evs"
| "guarded d (ev # evs) = (0 < d \<and> guarded d evs)"

section \<open>Native warnings and \<open>EnforceWarningBuffer\<close>\<close>

text \<open>
  \<open>c10::Warning::warn\<close> hands a warning to the process-wide handler: the buffering
  handler queues it, any other handler emits it as a native warning.
\<close>

definition c10_warn :: "warning \<Rightarrow> world \<Rightarrow> world" where
  "c10_warn w s =
     (case warning_handler s of
        Buffering \<Rightarrow> s\<lparr>warning_buffer := warning_buffer s @ [w]\<rparr>
      | Handler h \<Rightarrow> logev (NativeWarn h w) s)"

text \<open>
  Modelled from the spec: the interpreter's \<open>raise_foreign_warning(category, message)
  -> may_raise_error\<close> is outside this header. The first argument is the interpreter's
  warning filter: the warnings it turns into errors. An escalated warning becomes the
  interpreter's active error, of the warning's category.
\<close>

definition raise_foreign_warning :: "(warning \<Rightarrow> bool) \<Rightarrow> warning \<Rightarrow> world \<Rightarrow> world" where
  "raise_foreign_warning escalates w s =
     (let s1 = logev (ForeignWarn w) s
      in if escalates w then PyErr_SetString (PyExc_Warning (category w)) (message w) s1 else s1)"

fun replay_foreign :: "(warning \<Rightarrow> bool) \<Rightarrow> warning list \<Rightarrow> world \<Rightarrow> world" where
  "replay_foreign escalates [] s = s"
| "replay_foreign escalates (w # ws) s = replay_foreign escalates ws (raise_foreign_warning escalates w s)"

fun replay_native :: "warning list \<Rightarrow> world \<Rightarrow> world" where
  "replay_native [] s = s"
| "replay_native (w # ws) s = replay_native ws (c10_warn w s)"

text \<open>
  Modelled from the spec: the body of \<open>EnforceWarningBuffer::EnforceWarningBuffer()\<close> is
  not in the header, which only declares it. The spec: it saves the currently active
  process-wide warning handler and installs a capturing handler that appends incoming
  native warnings to the queue. The result is the saved \<open>prev_handler\<close>.
\<close>

definition EnforceWarningBuffer_ctor :: "world \<Rightarrow> handler \<times> world" where
  "EnforceWarningBuffer_ctor s = (warning_handler s, s\<lparr>warning_handler := Buffering\<rparr>)"

text \<open>
  Modelled from the spec: the body of \<open>EnforceWarningBuffer::~EnforceWarningBuffer()\<close> is
  not in the header. The spec: it restores the previous handler first, then drains the
  queue once. With no error active it replays each buffered warning as a foreign warning
  call, in the original order, under the global lock; if a replay raised, that error is
  the call's result: the destructor throws \<open>python_error()\<close> (the header's note on warning
  conversion). With an error active it makes no foreign call and replays the buffered
  warnings as native warnings. The header's note has the lock acquired in the destructor,
  and its macros make an error "detectable by warning code" by setting the interpreter's
  error indicator, which is what the branch tests. The result is the exception the
  destructor throws, if any.
\<close>

definition EnforceWarningBuffer_dtor ::
    "(warning \<Rightarrow> bool) \<Rightarrow> handler \<Rightarrow> world \<Rightarrow> python_error option \<times> world" where
  "EnforceWarningBuffer_dtor escalates prev_handler s =
     (let s1 = s\<lparr>warning_handler := prev_handler\<rparr>;
          ws = warning_buffer s1;
          s2 = AutoGIL_acquire (s1\<lparr>warning_buffer := []\<rparr>)
      in if PyErr_Occurred s2 then (None, AutoGIL_release (replay_native ws s2))
         else
           (let s3 = replay_foreign escalates ws s2
            in if PyErr_Occurred s3 then (Some python_error_init, AutoGIL_release s3)
               else (None, AutoGIL_release s3)))"

section \<open>Thrown objects\<close>

text \<open>
  The classes the macros name in a \<open>catch\<close> clause. A handler \<open>catch (C& e)\<close> takes a
  thrown object when \<open>C\<close> is its class or one of its base classes, so a thrown object is
  modelled by the list of classes it can be caught as, with what the handlers read from it.
\<close>

datatype cls =
    K_python_error
  | K_c10_IndexError
  | K_c10_Error
  | K_PyTorchError
  | K_std_exception
  | K_error_already_set
  | K_builtin_exception
  | K_JITException

record exn =
  bases :: "cls list"
  what :: string
  what_without_backtrace :: string
  python_type :: pyobj
  held :: python_error

definition catches :: "cls \<Rightarrow> exn \<Rightarrow> bool" where
  "catches c e = (c \<in> set (bases e))"

text \<open>
  The native error types of the taxonomy: \<open>c10::IndexError\<close> and \<open>c10::Error\<close> (message and
  backtrace; \<open>c10::IndexError\<close> derives from \<open>c10::Error\<close>), the three \<open>torch::PyTorchError\<close>
  subtypes the header declares, and any other \<open>std::exception\<close>.
\<close>

datatype native =
    C10_IndexError string string
  | C10_Error string string
  | Torch_IndexError string
  | Torch_TypeError string
  | Torch_ValueError string
  | Std_exception string

fun thrown :: "native \<Rightarrow> exn" where
  "thrown (C10_IndexError msg backtrace) =
     \<lparr>bases = [K_c10_IndexError, K_c10_Error, K_std_exception], what = msg @ backtrace,
      what_without_backtrace = msg, python_type = PyExc_RuntimeError, held = python_error_init\<rparr>"
| "thrown (C10_Error msg backtrace) =
     \<lparr>bases = [K_c10_Error, K_std_exception], what = msg @ backtrace,
      what_without_backtrace = msg, python_type = PyExc_RuntimeError, held = python_error_init\<rparr>"
| "thrown (Torch_IndexError msg) =
     \<lparr>bases = [K_PyTorchError, K_std_exception], what = msg,
      what_without_backtrace = msg, python_type = PyExc_IndexError, held = python_error_init\<rparr>"
| "thrown (Torch_TypeError msg) =
     \<lparr>bases = [K_PyTorchError, K_std_exception], what = msg,
      what_without_backtrace = msg, python_type = PyExc_TypeError, held = python_error_init\<rparr>"
| "thrown (Torch_ValueError msg) =
     \<lparr>bases = [K_PyTorchError, K_std_exception], what = msg,
      what_without_backtrace = msg, python_type = PyExc_ValueError, held = python_error_init\<rparr>"
| "thrown (Std_exception msg) =
     \<lparr>bases = [K_std_exception], what = msg,
      what_without_backtrace = msg, python_type = PyExc_RuntimeError, held = python_error_init\<rparr>"

text \<open>A thrown \<open>python_error\<close> (it derives from \<open>std::exception\<close>) with its three fields.\<close>

definition thrown_python_error :: "python_error \<Rightarrow> exn" where
  "thrown_python_error pe =
     \<lparr>bases = [K_python_error, K_std_exception], what = ''std::exception'',
      what_without_backtrace = [], python_type = PyExc_RuntimeError, held = pe\<rparr>"

text \<open>
  A thrown \<open>torch::jit::JITException\<close>. The header includes its declaration from
  \<open>torch/csrc/jit/script/jit_exception.h\<close>, where it is a \<open>std::runtime_error\<close> with a
  message.
\<close>

definition thrown_JITException :: "string \<Rightarrow> exn" where
  "thrown_JITException msg =
     \<lparr>bases = [K_JITException, K_std_exception], what = msg,
      what_without_backtrace = msg, python_type = PyExc_RuntimeError, held = python_error_init\<rparr>"

text \<open>
  pybind11's \<open>py::error_already_set()\<close>: the constructor fetches the interpreter's error
  into the new object; \<open>restore()\<close> gives it back to the interpreter and leaves the object
  empty. \<open>py::builtin_exception::set_error()\<close> sets the error of the exception's type with
  its message.
\<close>

definition thrown_error_already_set :: "python_error \<Rightarrow> exn" where
  "thrown_error_already_set pe =
     \<lparr>bases = [K_error_already_set, K_std_exception], what = [],
      what_without_backtrace = [], python_type = PyExc_RuntimeError, held = pe\<rparr>"

definition error_already_set_ctor :: "world \<Rightarrow> exn \<times> world" where
  "error_already_set_ctor s =
     (let (pe, s1) = PyErr_Fetch s in (thrown_error_already_set pe, s1))"

definition error_already_set_restore :: "exn \<Rightarrow> world \<Rightarrow> exn \<times> world" where
  "error_already_set_restore e s =
     (e\<lparr>held := python_error_init\<rparr>,
      PyErr_Restore (ptype (held e)) (pvalue (held e)) (ptraceback (held e)) s)"

definition builtin_exception_set_error :: "exn \<Rightarrow> world \<Rightarrow> world" where
  "builtin_exception_set_error e s = PyErr_SetString (python_type e) (what e) s"

section \<open>The macros\<close>

text \<open>
  How a protected call ends: it returned a value, an exception left it, or the program
  was terminated (a destructor threw while another exception was unwinding the stack).
\<close>

datatype 'r outcome = Returned 'r | Thrown exn | Terminated

text \<open>
  The \<open>retstmnt\<close> argument of \<open>CATCH_TH_ERRORS\<close>, as the header uses it: \<open>return retval\<close>,
  \<open>throw\<close> and \<open>throw py::error_already_set()\<close>.
\<close>

datatype 'r retstmnt = Return 'r | Rethrow | Throw_error_already_set

text \<open>
  A handled exception object is destroyed when its handler is left other than by
  \<open>throw;\<close>. For a \<open>python_error\<close> that runs \<open>~python_error()\<close>.
\<close>

definition destroy_exn :: "exn \<Rightarrow> world \<Rightarrow> world" where
  "destroy_exn e s = (if catches K_python_error e then python_error_dtor (held e) s else s)"

definition run_retstmnt :: "'r retstmnt \<Rightarrow> exn \<Rightarrow> world \<Rightarrow> 'r outcome \<times> world" where
  "run_retstmnt retstmnt e s =
     (case retstmnt of
        Return retval \<Rightarrow> (Returned retval, destroy_exn e s)
      | Rethrow \<Rightarrow> (Thrown e, s)
      | Throw_error_already_set \<Rightarrow>
          (let (x, s1) = error_already_set_ctor s in (Thrown x, destroy_exn e s1)))"

text \<open>
  \<open>CATCH_TH_ERRORS(retstmnt)\<close>: the five clauses in the order the header lists them; an
  exception none of them takes goes on. \<open>torch::processErrorMsg\<close> is declared in the
  header and defined elsewhere: it is the first argument.
\<close>

definition CATCH_TH_ERRORS ::
    "(string \<Rightarrow> string) \<Rightarrow> 'r retstmnt \<Rightarrow> exn \<Rightarrow> world \<Rightarrow> 'r outcome \<times> world" where
  "CATCH_TH_ERRORS processErrorMsg retstmnt e s =
     (if catches K_python_error e then run_retstmnt retstmnt e s
      else if catches K_c10_IndexError e then
        run_retstmnt retstmnt e
          (PyErr_SetString PyExc_IndexError (processErrorMsg (what_without_backtrace e)) s)
      else if catches K_c10_Error e then
        run_retstmnt retstmnt e
          (PyErr_SetString PyExc_RuntimeError (processErrorMsg (what_without_backtrace e)) s)
      else if catches K_PyTorchError e then
        run_retstmnt retstmnt e (PyErr_SetString (python_type e) (processErrorMsg (what e)) s)
      else if catches K_std_exception e then
        run_retstmnt retstmnt e (PyErr_SetString PyExc_RuntimeError (processErrorMsg (what e)) s)
      else (Thrown e, s))"

text \<open>
  \<open>HANDLE_TH_ERRORS\<close>: the outer \<open>try\<close> block declares the warning buffer and holds the
  inner \<open>try\<close> block around the body. The inner handlers see what the body throws; the
  buffer is destroyed when the outer block is left, by a return or by an exception; the
  outer handlers see what leaves the outer block: what the inner handlers threw, or what
  the buffer's destructor threw.
\<close>

definition HANDLE_TH_ERRORS ::
    "(exn \<Rightarrow> world \<Rightarrow> 'r outcome \<times> world) \<Rightarrow> (exn \<Rightarrow> world \<Rightarrow> 'r outcome \<times> world) \<Rightarrow>
     (warning \<Rightarrow> bool) \<Rightarrow> (world \<Rightarrow> 'r outcome \<times> world) \<Rightarrow> world \<Rightarrow> 'r outcome \<times> world" where
  "HANDLE_TH_ERRORS inner outer escalates body s =
     (let (prev_handler, s1) = EnforceWarningBuffer_ctor s;
          (r, s2) = body s1;
          (r1, s3) = (case r of Thrown e \<Rightarrow> inner e s2 | Returned v \<Rightarrow> (r, s2) | Terminated \<Rightarrow> (r, s2));
          (d, s4) = EnforceWarningBuffer_dtor escalates prev_handler s3
      in case r1 of
           Returned v \<Rightarrow>
             (case d of None \<Rightarrow> (Returned v, s4) | Some pe \<Rightarrow> outer (thrown_python_error pe) s4)
         | Thrown e \<Rightarrow> (case d of None \<Rightarrow> outer e s4 | Some pe \<Rightarrow> (Terminated, s4))
         | Terminated \<Rightarrow> (Terminated, s3))"

text \<open>The inner and the outer handlers of \<open>END_HANDLE_TH_ERRORS_PYBIND\<close>.\<close>

definition PYBIND_inner :: "(string \<Rightarrow> string) \<Rightarrow> exn \<Rightarrow> world \<Rightarrow> 'r outcome \<times> world" where
  "PYBIND_inner processErrorMsg e s =
     (if catches K_error_already_set e then
        (let (e1, s1) = error_already_set_restore e s in (Thrown e1, s1))
      else if catches K_builtin_exception e then (Thrown e, builtin_exception_set_error e s)
      else if catches K_JITException e then
        (Thrown e, PyErr_SetString PyExc_RuntimeError ''JITException'' s)
      else CATCH_TH_ERRORS processErrorMsg Rethrow e s)"

definition PYBIND_outer :: "(string \<Rightarrow> string) \<Rightarrow> exn \<Rightarrow> world \<Rightarrow> 'r outcome \<times> world" where
  "PYBIND_outer processErrorMsg e s =
     (if catches K_error_already_set e then run_retstmnt Throw_error_already_set e s
      else if catches K_builtin_exception e then run_retstmnt Throw_error_already_set e s
      else if catches K_JITException e then (Thrown e, PyErr_Clear s)
      else CATCH_TH_ERRORS processErrorMsg Throw_error_already_set e s)"

definition END_HANDLE_TH_ERRORS_PYBIND ::
    "(string \<Rightarrow> string) \<Rightarrow> (warning \<Rightarrow> bool) \<Rightarrow> (world \<Rightarrow> 'r outcome \<times> world) \<Rightarrow> world \<Rightarrow>
     'r outcome \<times> world" where
  "END_HANDLE_TH_ERRORS_PYBIND processErrorMsg escalates body s =
     HANDLE_TH_ERRORS (PYBIND_inner processErrorMsg) (PYBIND_outer processErrorMsg) escalates body s"

definition END_HANDLE_TH_ERRORS_RET ::
    "(string \<Rightarrow> string) \<Rightarrow> 'r \<Rightarrow> (warning \<Rightarrow> bool) \<Rightarrow> (world \<Rightarrow> 'r outcome \<times> world) \<Rightarrow> world \<Rightarrow>
     'r outcome \<times> world" where
  "END_HANDLE_TH_ERRORS_RET processErrorMsg retval escalates body s =
     HANDLE_TH_ERRORS (CATCH_TH_ERRORS processErrorMsg (Return retval))
       (CATCH_TH_ERRORS processErrorMsg (Return retval)) escalates body s"

text \<open>\<open>END_HANDLE_TH_ERRORS\<close> is \<open>END_HANDLE_TH_ERRORS_RET(nullptr)\<close>.\<close>

definition END_HANDLE_TH_ERRORS ::
    "(string \<Rightarrow> string) \<Rightarrow> (warning \<Rightarrow> bool) \<Rightarrow> (world \<Rightarrow> 'r option outcome \<times> world) \<Rightarrow> world \<Rightarrow>
     'r option outcome \<times> world" where
  "END_HANDLE_TH_ERRORS processErrorMsg escalates body s =
     END_HANDLE_TH_ERRORS_RET processErrorMsg None escalates body s"

section \<open>The specification's tables\<close>

text \<open>
  The specification's taxonomy of native error kinds and the foreign type it declares
  for each, to compare with what the macros install.
\<close>

datatype kind = IndexKind | TypeKind | ValueKind | GenericKind

fun kind_of :: "native \<Rightarrow> kind" where
  "kind_of (C10_IndexError msg backtrace) = IndexKind"
| "kind_of (C10_Error msg backtrace) = GenericKind"
| "kind_of (Torch_IndexError msg) = IndexKind"
| "kind_of (Torch_TypeError msg) = TypeKind"
| "kind_of (Torch_ValueError msg) = ValueKind"
| "kind_of (Std_exception msg) = GenericKind"

fun declared_mapping :: "kind \<Rightarrow> pyobj" where
  "declared_mapping IndexKind = PyExc_IndexError"
| "declared_mapping TypeKind = PyExc_TypeError"
| "declared_mapping ValueKind = PyExc_ValueError"
| "declared_mapping GenericKind = PyExc_RuntimeError"

text \<open>
  The selector table in the order the specification gives it: an error that is already
  foreign passes through, then the index error, then a declared \<open>PyTorchError\<close> subtype,
  and only then the generic errors.
\<close>

datatype translation = PassThrough | Install pyobj string | NoMatch

definition selector_table_spec :: "(string \<Rightarrow> string) \<Rightarrow> exn \<Rightarrow> translation" where
  "selector_table_spec render e =
     (if catches K_python_error e then PassThrough
      else if catches K_c10_IndexError e then Install PyExc_IndexError (render (what_without_backtrace e))
      else if catches K_PyTorchError e then Install (python_type e) (render (what e))
      else if catches K_c10_Error e then Install PyExc_RuntimeError (render (what_without_backtrace e))
      else if catches K_std_exception e then Install PyExc_RuntimeError (render (what e))
      else NoMatch)"

text \<open>The foreign and the native warnings a trace delivered, in order.\<close>

fun foreign_warnings :: "event list \<Rightarrow> warning list" where
  "foreign_warnings [] = []"
| "foreign_warnings (ForeignWarn w # evs) = w # foreign_warnings evs"
| "foreign_warnings (ev # evs) = foreign_warnings evs"

fun native_warnings :: "event list \<Rightarrow> (nat \<times> warning) list" where
  "native_warnings [] = []"
| "native_warnings (NativeWarn h w # evs) = (h, w) # native_warnings evs"
| "native_warnings (ev # evs) = native_warnings evs"

text \<open>The errors a trace installed as the interpreter's error, in order.\<close>

fun installs :: "event list \<Rightarrow> python_error list" where
  "installs [] = []"
| "installs (ErrRestore t v tb # evs) = \<lparr>ptype = t, pvalue = v, ptraceback = tb\<rparr> # installs evs"
| "installs (ev # evs) = installs evs"

text \<open>The message a native error was made with.\<close>

fun message_of :: "native \<Rightarrow> string" where
  "message_of (C10_IndexError msg backtrace) = msg"
| "message_of (C10_Error msg backtrace) = msg"
| "message_of (Torch_IndexError msg) = msg"
| "message_of (Torch_TypeError msg) = msg"
| "message_of (Torch_ValueError msg) = msg"
| "message_of (Std_exception msg) = msg"

text \<open>The error an escalated warning leaves as the interpreter's error.\<close>

definition warning_error :: "warning \<Rightarrow> python_error" where
  "warning_error w =
     \<lparr>ptype = Some (PyExc_Warning (category w)), pvalue = Some (PyStr (message w)),
      ptraceback = None\<rparr>"

text \<open>The events a world has seen since an earlier one.\<close>

definition since :: "world \<Rightarrow> world \<Rightarrow> event list" where
  "since s s' = drop (length (trace s)) (trace s')"

text \<open>A world at rest, to run the definitions on: no error, no warning, every count 1.\<close>

definition idle :: world where
  "idle = \<lparr>curexc_type = None, curexc_value = None, curexc_traceback = None,
           ob_refcnt = (\<lambda>p. 1), gil_depth = 0, warning_handler = Handler 0,
           warning_buffer = [], trace = []\<rparr>"

text \<open>A world with an error set: \<open>ValueError("bad")\<close>, no traceback.\<close>

definition failed :: world where
  "failed = idle\<lparr>curexc_type := Some PyExc_ValueError, curexc_value := Some (PyStr ''bad'')\<rparr>"

text \<open>Two warnings, and the two worlds above with both of them buffered.\<close>

definition deprecated :: warning where
  "deprecated = \<lparr>category = ''Deprecated'', message = ''old call''\<rparr>"

definition slow :: warning where
  "slow = \<lparr>category = ''Performance'', message = ''slow path''\<rparr>"


text \<open>Warning filters: none escalates, the deprecation warnings do, or all do.\<close>

definition every_warning_is_error :: "warning \<Rightarrow> bool" where
  "every_warning_is_error w = True"


definition no_escalation :: "warning \<Rightarrow> bool" where
  "no_escalation w = False"

definition deprecation_is_error :: "warning \<Rightarrow> bool" where
  "deprecation_is_error w = (category w = ''Deprecated'')"

text \<open>
  Bodies: one throws at once, one emits a warning and returns, one sets an error and then
  throws, one emits a warning and then throws, one emits a warning, sets an error and
  returns (as a body does that returns \<open>nullptr\<close> after a failed interpreter call).
\<close>

definition warns_fails_then_returns :: "'r \<Rightarrow> world \<Rightarrow> 'r outcome \<times> world" where
  "warns_fails_then_returns v s =
     (Returned v, PyErr_SetString PyExc_ValueError ''bad'' (c10_warn deprecated s))"


definition throws :: "exn \<Rightarrow> world \<Rightarrow> 'r outcome \<times> world" where
  "throws e s = (Thrown e, s)"

definition warns_then_returns :: "'r \<Rightarrow> world \<Rightarrow> 'r outcome \<times> world" where
  "warns_then_returns v s = (Returned v, c10_warn deprecated s)"

definition fails_then_throws :: "exn \<Rightarrow> world \<Rightarrow> 'r outcome \<times> world" where
  "fails_then_throws e s = (Thrown e, PyErr_SetString PyExc_ValueError ''bad'' s)"

text \<open>
  A thrown object of a \<open>PyTorchError\<close> subtype that native code declares for itself, with a
  foreign type of its own.
\<close>

definition user_error :: exn where
  "user_error =
     \<lparr>bases = [K_PyTorchError, K_std_exception], what = ''user failure'',
      what_without_backtrace = ''user failure'', python_type = PyObj 42,
      held = python_error_init\<rparr>"

definition warns_then_throws :: "exn \<Rightarrow> world \<Rightarrow> 'r outcome \<times> world" where
  "warns_then_throws e s = (Thrown e, c10_warn deprecated s)"

text \<open>
  A thrown object of a class derived from both \<open>c10::Error\<close> and \<open>torch::PyTorchError\<close>,
  whose \<open>python_type()\<close> is \<open>PyExc_TypeError\<close>. Each of the two bases brings its own
  \<open>std::exception\<close>, so that base is ambiguous and no handler for \<open>std::exception\<close> takes
  the object.
\<close>

definition derived_from_both :: exn where
  "derived_from_both =
     \<lparr>bases = [K_c10_Error, K_PyTorchError], what = ''wrong dtype'',
      what_without_backtrace = ''wrong dtype'', python_type = PyExc_TypeError,
      held = python_error_init\<rparr>"

section \<open>Field lemmas\<close>

lemma nonnull_Cons2 [simp]: "nonnull (h # h' # hs) = nonnull [h] @ nonnull (h' # hs)"
  by (cases h) simp_all

lemma logev_fields [simp]:
  "curexc_type (logev ev s) = curexc_type s"
  "curexc_value (logev ev s) = curexc_value s"
  "curexc_traceback (logev ev s) = curexc_traceback s"
  "ob_refcnt (logev ev s) = ob_refcnt s"
  "gil_depth (logev ev s) = gil_depth s"
  "warning_handler (logev ev s) = warning_handler s"
  "warning_buffer (logev ev s) = warning_buffer s"
  "trace (logev ev s) = trace s @ [ev]"
  "world.more (logev ev s) = world.more s"
  by (simp_all add: logev_def)

lemma AutoGIL_acquire_fields [simp]:
  "curexc_type (AutoGIL_acquire s) = curexc_type s"
  "curexc_value (AutoGIL_acquire s) = curexc_value s"
  "curexc_traceback (AutoGIL_acquire s) = curexc_traceback s"
  "ob_refcnt (AutoGIL_acquire s) = ob_refcnt s"
  "gil_depth (AutoGIL_acquire s) = Suc (gil_depth s)"
  "warning_handler (AutoGIL_acquire s) = warning_handler s"
  "warning_buffer (AutoGIL_acquire s) = warning_buffer s"
  "trace (AutoGIL_acquire s) = trace s @ [GilAcquire]"
  "world.more (AutoGIL_acquire s) = world.more s"
  by (simp_all add: AutoGIL_acquire_def)

lemma AutoGIL_release_fields [simp]:
  "curexc_type (AutoGIL_release s) = curexc_type s"
  "curexc_value (AutoGIL_release s) = curexc_value s"
  "curexc_traceback (AutoGIL_release s) = curexc_traceback s"
  "ob_refcnt (AutoGIL_release s) = ob_refcnt s"
  "gil_depth (AutoGIL_release s) = gil_depth s - 1"
  "warning_handler (AutoGIL_release s) = warning_handler s"
  "warning_buffer (AutoGIL_release s) = warning_buffer s"
  "trace (AutoGIL_release s) = trace s @ [GilRelease]"
  "world.more (AutoGIL_release s) = world.more s"
  by (simp_all add: AutoGIL_release_def)

lemma Py_XINCREF_fields [simp]:
  "curexc_type (Py_XINCREF h s) = curexc_type s"
  "curexc_value (Py_XINCREF h s) = curexc_value s"
  "curexc_traceback (Py_XINCREF h s) = curexc_traceback s"
  "gil_depth (Py_XINCREF h s) = gil_depth s"
  "warning_handler (Py_XINCREF h s) = warning_handler s"
  "warning_buffer (Py_XINCREF h s) = warning_buffer s"
  "trace (Py_XINCREF h s) = trace s @ map IncRef (nonnull [h])"
  "world.more (Py_XINCREF h s) = world.more s"
  by (cases h; simp)+

lemma Py_XDECREF_fields [simp]:
  "curexc_type (Py_XDECREF h s) = curexc_type s"
  "curexc_value (Py_XDECREF h s) = curexc_value s"
  "curexc_traceback (Py_XDECREF h s) = curexc_traceback s"
  "gil_depth (Py_XDECREF h s) = gil_depth s"
  "warning_handler (Py_XDECREF h s) = warning_handler s"
  "warning_buffer (Py_XDECREF h s) = warning_buffer s"
  "trace (Py_XDECREF h s) = trace s @ map DecRef (nonnull [h])"
  "world.more (Py_XDECREF h s) = world.more s"
  by (cases h; simp)+

lemma Py_XDECREF_refcnt [simp]:
  "ob_refcnt (Py_XDECREF h s) p = ob_refcnt s p - (if h = Some p then 1 else 0)"
  by (cases h) (auto simp: Py_XDECREF.simps)

lemma Py_XINCREF_refcnt [simp]:
  "ob_refcnt (Py_XINCREF h s) p = ob_refcnt s p + (if h = Some p then 1 else 0)"
  by (cases h) (auto simp: Py_XINCREF.simps)

declare Py_XINCREF.simps [simp del] Py_XDECREF.simps [simp del]

lemma PyErr_Fetch_fields [simp]:
  "fst (PyErr_Fetch s) = indicator s"
  "curexc_type (snd (PyErr_Fetch s)) = None"
  "curexc_value (snd (PyErr_Fetch s)) = None"
  "curexc_traceback (snd (PyErr_Fetch s)) = None"
  "ob_refcnt (snd (PyErr_Fetch s)) = ob_refcnt s"
  "gil_depth (snd (PyErr_Fetch s)) = gil_depth s"
  "warning_handler (snd (PyErr_Fetch s)) = warning_handler s"
  "warning_buffer (snd (PyErr_Fetch s)) = warning_buffer s"
  "trace (snd (PyErr_Fetch s)) = trace s @ [ErrFetch]"
  "world.more (snd (PyErr_Fetch s)) = world.more s"
  by (simp_all add: PyErr_Fetch_def indicator_def)

lemma PyErr_Restore_fields [simp]:
  "curexc_type (PyErr_Restore t v tb s) = t"
  "curexc_value (PyErr_Restore t v tb s) = v"
  "curexc_traceback (PyErr_Restore t v tb s) = tb"
  "gil_depth (PyErr_Restore t v tb s) = gil_depth s"
  "warning_handler (PyErr_Restore t v tb s) = warning_handler s"
  "warning_buffer (PyErr_Restore t v tb s) = warning_buffer s"
  "trace (PyErr_Restore t v tb s) =
     trace s @ [ErrRestore t v tb] @
       map DecRef (nonnull [curexc_type s, curexc_value s, curexc_traceback s])"
  "world.more (PyErr_Restore t v tb s) = world.more s"
  by (simp_all add: PyErr_Restore_def)

lemma PyErr_Restore_refcnt [simp]:
  "ob_refcnt (PyErr_Restore t v tb s) p = ob_refcnt s p - holds (indicator s) p"
  by (simp add: PyErr_Restore_def holds_def indicator_def)

lemma indicator_simps [simp]:
  "indicator (logev ev s) = indicator s"
  "indicator (AutoGIL_acquire s) = indicator s"
  "indicator (AutoGIL_release s) = indicator s"
  "indicator (Py_XINCREF h s) = indicator s"
  "indicator (Py_XDECREF h s) = indicator s"
  "indicator (PyErr_Restore t v tb s) = \<lparr>ptype = t, pvalue = v, ptraceback = tb\<rparr>"
  "indicator (snd (PyErr_Fetch s)) = python_error_init"
  by (simp_all add: indicator_def python_error_init_def)

lemma dtor_refcnt: "ob_refcnt (python_error_dtor a s) p = ob_refcnt s p - holds a p"
  by (simp add: python_error_dtor_def Let_def holds_def)

lemma restore_snd:
  "snd (restore e s) = (if ptype e = None then s else
      AutoGIL_release (PyErr_Restore (ptype e) (pvalue e) (ptraceback e)
        (Py_XINCREF (ptraceback e) (Py_XINCREF (pvalue e) (Py_XINCREF (ptype e) (AutoGIL_acquire s))))))"
  by (simp add: restore_def Let_def)

lemma restore_refcnt: "ptype e \<noteq> None \<Longrightarrow> ob_refcnt (snd (restore e s)) p = ob_refcnt s p + holds e p - holds (indicator s) p"
  by (simp only: restore_snd if_False) (simp add: holds_def [of e])

lemma guarded_DecRefs [simp]: "guarded (Suc d) (map DecRef ps @ evs) = guarded (Suc d) evs"
  by (induction ps) auto

lemma guarded_IncRefs [simp]: "guarded (Suc d) (map IncRef ps @ evs) = guarded (Suc d) evs"
  by (induction ps) auto

text \<open>The definitions a concrete run unfolds.\<close>

lemmas run_defs =
  persist_def restore_def python_error_dtor_def python_error_move_def python_error_init_def
  python_error_copy_def PyErr_Fetch_def PyErr_Restore_def PyErr_SetString_def PyErr_Clear_def
  PyErr_Occurred_def AutoGIL_acquire_def AutoGIL_release_def logev_def indicator_def holds_def
  Py_XINCREF.simps Py_XDECREF.simps Let_def split_def

lemmas macro_defs =
  END_HANDLE_TH_ERRORS_RET_def END_HANDLE_TH_ERRORS_PYBIND_def HANDLE_TH_ERRORS_def
  PYBIND_inner_def PYBIND_outer_def CATCH_TH_ERRORS_def run_retstmnt_def destroy_exn_def
  catches_def error_already_set_ctor_def thrown_error_already_set_def thrown_python_error_def
  thrown_JITException_def derived_from_both_def throws_def warns_then_throws_def
  warns_then_returns_def warns_fails_then_returns_def fails_then_throws_def
  EnforceWarningBuffer_ctor_def EnforceWarningBuffer_dtor_def raise_foreign_warning_def
  c10_warn_def deprecated_def slow_def no_escalation_def deprecation_is_error_def
  every_warning_is_error_def idle_def failed_def

section \<open>Claims about \<open>python_error\<close>\<close>

text \<open>
  C4. \<open>persist()\<close> on a populated instance (its \<open>type\<close> is set) changes neither the
  instance nor the world. On an empty instance it takes the interpreter's current
  type, value and traceback into the instance and clears the interpreter's error, between
  acquiring and releasing the lock, and touches nothing else. A second \<open>persist()\<close> after a
  capture of an error keeps the captured triple, whatever the world is by then.
\<close>

theorem persist_first_capture_wins:
  "(ptype e \<noteq> None \<longrightarrow> persist e s = (e, s)) \<and>
   persist python_error_init s =
     (indicator s,
      s\<lparr>curexc_type := None, curexc_value := None, curexc_traceback := None,
        trace := trace s @ [GilAcquire, ErrFetch, GilRelease]\<rparr>) \<and>
   guarded (gil_depth s) [GilAcquire, ErrFetch, GilRelease] \<and>
   (curexc_type s \<noteq> None \<longrightarrow>
      persist (fst (persist python_error_init s)) s' = (indicator s, s'))"
proof -
  have populated: "persist x w = (x, w)" if "ptype x \<noteq> None" for x w
    using that by (simp add: persist_def)
  have empty: "persist python_error_init s =
     (indicator s,
      s\<lparr>curexc_type := None, curexc_value := None, curexc_traceback := None,
        trace := trace s @ [GilAcquire, ErrFetch, GilRelease]\<rparr>)"
    by (simp add: persist_def split_def Let_def python_error_init_def Py_XDECREF.simps)
  have again: "persist (fst (persist python_error_init s)) s' = (indicator s, s')"
    if "curexc_type s \<noteq> None"
  proof -
    have "ptype (indicator s) \<noteq> None" using that by (simp add: indicator_def)
    then show ?thesis by (simp add: empty populated)
  qed
  show ?thesis using populated empty again by simp
qed

theorem persist_first_capture_wins_witness:
  "persist \<lparr>ptype = Some (PyObj 1), pvalue = Some (PyObj 2), ptraceback = None\<rparr> failed =
     (\<lparr>ptype = Some (PyObj 1), pvalue = Some (PyObj 2), ptraceback = None\<rparr>, failed) \<and>
   fst (persist python_error_init failed) =
     \<lparr>ptype = Some PyExc_ValueError, pvalue = Some (PyStr ''bad''), ptraceback = None\<rparr> \<and>
   curexc_type (snd (persist python_error_init failed)) = None \<and>
   trace (snd (persist python_error_init failed)) = [GilAcquire, ErrFetch, GilRelease] \<and>
   persist (fst (persist python_error_init failed)) idle =
     (\<lparr>ptype = Some PyExc_ValueError, pvalue = Some (PyStr ''bad''), ptraceback = None\<rparr>, idle)"
  using persist_first_capture_wins
    [of "\<lparr>ptype = Some (PyObj 1), pvalue = Some (PyObj 2), ptraceback = None\<rparr>" failed idle]
  by (simp add: failed_def idle_def run_defs)

text \<open>
  C10. \<open>persist()\<close> tests the \<open>type\<close> field only. An instance whose \<open>type\<close> is null is
  treated as empty whatever its \<open>value\<close> and \<open>traceback\<close> are: under the lock, each of
  the two that is not null is released once, then the interpreter's current triple is
  fetched into the instance and the interpreter's error cleared.
\<close>

theorem persist_null_type_releases_leftovers:
  assumes "ptype e = None"
  shows "persist e s =
     (indicator s,
      s\<lparr>curexc_type := None, curexc_value := None, curexc_traceback := None,
        ob_refcnt := (\<lambda>p. ob_refcnt s p - holds e p),
        trace := trace s @ [GilAcquire] @ map DecRef (nonnull [pvalue e, ptraceback e]) @
                 [ErrFetch, GilRelease]\<rparr>) \<and>
     guarded (gil_depth s)
       ([GilAcquire] @ map DecRef (nonnull [pvalue e, ptraceback e]) @ [ErrFetch, GilRelease])"
proof
  show "persist e s =
     (indicator s,
      s\<lparr>curexc_type := None, curexc_value := None, curexc_traceback := None,
        ob_refcnt := (\<lambda>p. ob_refcnt s p - holds e p),
        trace := trace s @ [GilAcquire] @ map DecRef (nonnull [pvalue e, ptraceback e]) @
                 [ErrFetch, GilRelease]\<rparr>)"
    using assms
    apply (simp add: persist_def split_def Let_def)
    apply (rule world.equality; simp add: holds_def fun_eq_iff)
    done
  show "guarded (gil_depth s)
       ([GilAcquire] @ map DecRef (nonnull [pvalue e, ptraceback e]) @ [ErrFetch, GilRelease])"
    by simp
qed

theorem persist_null_type_releases_leftovers_witness:
  "fst (persist \<lparr>ptype = None, pvalue = Some (PyObj 2), ptraceback = Some (PyObj 3)\<rparr> failed) =
     \<lparr>ptype = Some PyExc_ValueError, pvalue = Some (PyStr ''bad''), ptraceback = None\<rparr> \<and>
   ob_refcnt (snd (persist \<lparr>ptype = None, pvalue = Some (PyObj 2), ptraceback = Some (PyObj 3)\<rparr> failed)) (PyObj 2) = 0 \<and>
   ob_refcnt (snd (persist \<lparr>ptype = None, pvalue = Some (PyObj 2), ptraceback = Some (PyObj 3)\<rparr> failed)) (PyObj 3) = 0 \<and>
   curexc_type (snd (persist \<lparr>ptype = None, pvalue = Some (PyObj 2), ptraceback = Some (PyObj 3)\<rparr> failed)) = None \<and>
   trace (snd (persist \<lparr>ptype = None, pvalue = Some (PyObj 2), ptraceback = Some (PyObj 3)\<rparr> failed)) =
     [GilAcquire, DecRef (PyObj 2), DecRef (PyObj 3), ErrFetch, GilRelease]"
  using persist_null_type_releases_leftovers
    [of "\<lparr>ptype = None, pvalue = Some (PyObj 2), ptraceback = Some (PyObj 3)\<rparr>" failed]
  by (simp add: failed_def idle_def run_defs)

text \<open>
  C5. \<open>restore()\<close> on an instance whose \<open>type\<close> is null changes nothing. On a populated
  instance it takes the lock, adds one reference to each of the three objects held,
  installs the three with \<open>PyErr_Restore\<close> (which releases what the indicator held
  before) and releases the lock; the instance's three fields are as before. So each
  object gains one reference per field that holds it, and a second \<open>restore()\<close> right
  after leaves every count where the first left it; after any number of calls the
  instance is unchanged.
\<close>

theorem restore_installs_and_keeps:
  "(ptype e = None \<longrightarrow> restore e s = (e, s)) \<and>
   (ptype e \<noteq> None \<longrightarrow>
      fst (restore e s) = e \<and>
      indicator (snd (restore e s)) = e \<and>
      (\<forall>p. ob_refcnt (snd (restore e s)) p = ob_refcnt s p + holds e p - holds (indicator s) p) \<and>
      trace (snd (restore e s)) =
        trace s @ [GilAcquire] @ map IncRef (nonnull [ptype e, pvalue e, ptraceback e]) @
        [ErrRestore (ptype e) (pvalue e) (ptraceback e)] @
        map DecRef (nonnull [curexc_type s, curexc_value s, curexc_traceback s]) @ [GilRelease] \<and>
      ob_refcnt (snd (restore e (snd (restore e s)))) = ob_refcnt (snd (restore e s))) \<and>
   fst (((\<lambda>(x, w). restore x w) ^^ n) (e, s)) = e"
proof (intro conjI impI)
  show "restore e s = (e, s)" if "ptype e = None"
    using that by (simp add: restore_def)
  show fst_restore: "fst (restore e s) = e" if "ptype e \<noteq> None"
    by (simp add: restore_def Let_def)
  show ind: "indicator (snd (restore e s)) = e" if "ptype e \<noteq> None"
    using that by (simp only: restore_snd if_False) simp
  show cnt: "\<forall>p. ob_refcnt (snd (restore e s)) p = ob_refcnt s p + holds e p - holds (indicator s) p"
    if "ptype e \<noteq> None"
    using that by (simp add: restore_refcnt)
  show "trace (snd (restore e s)) =
        trace s @ [GilAcquire] @ map IncRef (nonnull [ptype e, pvalue e, ptraceback e]) @
        [ErrRestore (ptype e) (pvalue e) (ptraceback e)] @
        map DecRef (nonnull [curexc_type s, curexc_value s, curexc_traceback s]) @ [GilRelease]"
    if "ptype e \<noteq> None"
    using that by (simp only: restore_snd if_False) simp
  show "ob_refcnt (snd (restore e (snd (restore e s)))) = ob_refcnt (snd (restore e s))"
    if "ptype e \<noteq> None"
  proof
    fix p
    have "indicator (snd (restore e s)) = e"
      using that by (simp only: restore_snd if_False) simp
    then show "ob_refcnt (snd (restore e (snd (restore e s)))) p = ob_refcnt (snd (restore e s)) p"
      using that restore_refcnt [of e "snd (restore e s)" p] by simp
  qed
  have keep: "fst (restore x w) = x" for x w
    by (simp add: restore_def Let_def)
  show "fst (((\<lambda>(x, w). restore x w) ^^ n) (e, s)) = e"
    by (induction n) (simp_all add: split_def keep)
qed

theorem restore_installs_and_keeps_witness:
  "restore python_error_init failed = (python_error_init, failed) \<and>
   fst (restore \<lparr>ptype = Some (PyObj 1), pvalue = Some (PyObj 2), ptraceback = None\<rparr> failed) =
     \<lparr>ptype = Some (PyObj 1), pvalue = Some (PyObj 2), ptraceback = None\<rparr> \<and>
   indicator (snd (restore \<lparr>ptype = Some (PyObj 1), pvalue = Some (PyObj 2), ptraceback = None\<rparr> failed)) =
     \<lparr>ptype = Some (PyObj 1), pvalue = Some (PyObj 2), ptraceback = None\<rparr> \<and>
   ob_refcnt (snd (restore \<lparr>ptype = Some (PyObj 1), pvalue = Some (PyObj 2), ptraceback = None\<rparr> failed)) (PyObj 1) = 2 \<and>
   ob_refcnt (snd (restore \<lparr>ptype = Some (PyObj 1), pvalue = Some (PyObj 2), ptraceback = None\<rparr> failed)) PyExc_ValueError = 0 \<and>
   trace (snd (restore \<lparr>ptype = Some (PyObj 1), pvalue = Some (PyObj 2), ptraceback = None\<rparr> failed)) =
     [GilAcquire, IncRef (PyObj 1), IncRef (PyObj 2),
      ErrRestore (Some (PyObj 1)) (Some (PyObj 2)) None,
      DecRef PyExc_ValueError, DecRef (PyStr ''bad''), GilRelease]"
  using restore_installs_and_keeps
    [of "\<lparr>ptype = Some (PyObj 1), pvalue = Some (PyObj 2), ptraceback = None\<rparr>" failed 2]
    restore_installs_and_keeps [of python_error_init failed 0]
  by (simp add: failed_def idle_def run_defs)

text \<open>
  C6. Move construction hands the three pointers to the new instance and nulls all
  three in the source; the world is untouched: no lock, no reference count. Destroying
  the moved-from source does nothing, and destroying both instances has the effect of
  destroying the original once: each object loses one reference per field that held it,
  under the lock.
\<close>

theorem move_then_destroy_both_releases_once:
  "python_error_move a s = ((a, python_error_init), s) \<and>
   python_error_dtor (snd (fst (python_error_move a s))) s = s \<and>
   python_error_dtor (fst (fst (python_error_move a s)))
     (python_error_dtor (snd (fst (python_error_move a s))) (snd (python_error_move a s))) =
     python_error_dtor a s \<and>
   (\<forall>p. ob_refcnt (python_error_dtor a s) p = ob_refcnt s p - holds a p) \<and>
   trace (python_error_dtor a s) =
     trace s @ (if ptype a = None \<and> pvalue a = None \<and> ptraceback a = None then []
                else [GilAcquire] @ map DecRef (nonnull [ptype a, pvalue a, ptraceback a]) @ [GilRelease])"
proof -
  have m: "python_error_move a s = ((a, python_error_init), s)"
    by (simp add: python_error_move_def python_error_init_def)
  have d: "python_error_dtor python_error_init s = s"
    by (simp add: python_error_dtor_def python_error_init_def)
  have t: "trace (python_error_dtor a s) =
     trace s @ (if ptype a = None \<and> pvalue a = None \<and> ptraceback a = None then []
                else [GilAcquire] @ map DecRef (nonnull [ptype a, pvalue a, ptraceback a]) @ [GilRelease])"
    by (simp add: python_error_dtor_def Let_def)
  show ?thesis
    by (simp only: m d t fst_conv snd_conv dtor_refcnt) simp
qed

theorem move_then_destroy_both_releases_once_witness:
  "python_error_move \<lparr>ptype = Some (PyObj 1), pvalue = Some (PyObj 2), ptraceback = Some (PyObj 1)\<rparr> idle =
     ((\<lparr>ptype = Some (PyObj 1), pvalue = Some (PyObj 2), ptraceback = Some (PyObj 1)\<rparr>,
       \<lparr>ptype = None, pvalue = None, ptraceback = None\<rparr>), idle) \<and>
   python_error_dtor \<lparr>ptype = None, pvalue = None, ptraceback = None\<rparr> idle = idle \<and>
   ob_refcnt (python_error_dtor \<lparr>ptype = Some (PyObj 1), pvalue = Some (PyObj 2), ptraceback = Some (PyObj 1)\<rparr> idle) (PyObj 1) = - 1 \<and>
   ob_refcnt (python_error_dtor \<lparr>ptype = Some (PyObj 1), pvalue = Some (PyObj 2), ptraceback = Some (PyObj 1)\<rparr> idle) (PyObj 2) = 0 \<and>
   trace (python_error_dtor \<lparr>ptype = Some (PyObj 1), pvalue = Some (PyObj 2), ptraceback = Some (PyObj 1)\<rparr> idle) =
     [GilAcquire, DecRef (PyObj 1), DecRef (PyObj 2), DecRef (PyObj 1), GilRelease]"
  using move_then_destroy_both_releases_once
    [of "\<lparr>ptype = Some (PyObj 1), pvalue = Some (PyObj 2), ptraceback = Some (PyObj 1)\<rparr>" idle]
  by (simp add: idle_def run_defs)

section \<open>Claims about the warning buffer\<close>

lemma PyErr_SetString_fields [simp]:
  "curexc_type (PyErr_SetString t msg s) = Some t"
  "curexc_value (PyErr_SetString t msg s) = Some (PyStr msg)"
  "curexc_traceback (PyErr_SetString t msg s) = None"
  "gil_depth (PyErr_SetString t msg s) = gil_depth s"
  "warning_handler (PyErr_SetString t msg s) = warning_handler s"
  "warning_buffer (PyErr_SetString t msg s) = warning_buffer s"
  "trace (PyErr_SetString t msg s) =
     trace s @ [IncRef t, IncRef (PyStr msg), ErrRestore (Some t) (Some (PyStr msg)) None] @
       map DecRef (nonnull [curexc_type s, curexc_value s, curexc_traceback s])"
  by (simp_all add: PyErr_SetString_def)

lemma PyErr_Clear_fields [simp]:
  "curexc_type (PyErr_Clear s) = None"
  "curexc_value (PyErr_Clear s) = None"
  "curexc_traceback (PyErr_Clear s) = None"
  "gil_depth (PyErr_Clear s) = gil_depth s"
  "warning_handler (PyErr_Clear s) = warning_handler s"
  "warning_buffer (PyErr_Clear s) = warning_buffer s"
  "trace (PyErr_Clear s) =
     trace s @ [ErrRestore None None None] @
       map DecRef (nonnull [curexc_type s, curexc_value s, curexc_traceback s])"
  by (simp_all add: PyErr_Clear_def)

lemma foreign_warnings_append [simp]:
  "foreign_warnings (xs @ ys) = foreign_warnings xs @ foreign_warnings ys"
  by (induction xs rule: foreign_warnings.induct) simp_all

lemma native_warnings_append [simp]:
  "native_warnings (xs @ ys) = native_warnings xs @ native_warnings ys"
  by (induction xs rule: native_warnings.induct) simp_all

lemma warnings_of_refs [simp]:
  "foreign_warnings (map DecRef ps) = []" "native_warnings (map DecRef ps) = []"
  "foreign_warnings (map IncRef ps) = []" "native_warnings (map IncRef ps) = []"
  by (induction ps) simp_all

lemma warnings_of_NativeWarn [simp]:
  "foreign_warnings (map (NativeWarn h) ws) = []"
  "native_warnings (map (NativeWarn h) ws) = map (Pair h) ws"
  by (induction ws) simp_all

lemma raise_foreign_warning_fields [simp]:
  "gil_depth (raise_foreign_warning esc w s) = gil_depth s"
  "warning_handler (raise_foreign_warning esc w s) = warning_handler s"
  "warning_buffer (raise_foreign_warning esc w s) = warning_buffer s"
  "PyErr_Occurred (raise_foreign_warning esc w s) = (esc w \<or> PyErr_Occurred s)"
  "trace (raise_foreign_warning esc w s) =
     trace s @ [ForeignWarn w] @
       (if esc w then
          [IncRef (PyExc_Warning (category w)), IncRef (PyStr (message w)),
           ErrRestore (Some (PyExc_Warning (category w))) (Some (PyStr (message w))) None] @
          map DecRef (nonnull [curexc_type s, curexc_value s, curexc_traceback s])
        else [])"
  by (simp_all add: raise_foreign_warning_def Let_def PyErr_Occurred_def)

lemma replay_foreign_fields [simp]:
  "gil_depth (replay_foreign esc ws s) = gil_depth s"
  "warning_handler (replay_foreign esc ws s) = warning_handler s"
  "warning_buffer (replay_foreign esc ws s) = warning_buffer s"
  "PyErr_Occurred (replay_foreign esc ws s) = ((\<exists>w \<in> set ws. esc w) \<or> PyErr_Occurred s)"
  by (induction ws arbitrary: s; auto)+


lemma replay_native_fields [simp]:
  "gil_depth (replay_native ws s) = gil_depth s"
  "warning_handler (replay_native ws s) = warning_handler s"
  "indicator (replay_native ws s) = indicator s"
  "PyErr_Occurred (replay_native ws s) = PyErr_Occurred s"
  by (induction ws arbitrary: s;
      simp add: c10_warn_def indicator_def PyErr_Occurred_def split: handler.split)+

lemma replay_native_Handler:
  "warning_handler s = Handler h \<Longrightarrow>
   trace (replay_native ws s) = trace s @ map (NativeWarn h) ws \<and>
   warning_buffer (replay_native ws s) = warning_buffer s"
  by (induction ws arbitrary: s) (simp_all add: c10_warn_def)

lemma replay_native_Buffering:
  "warning_handler s = Buffering \<Longrightarrow>
   trace (replay_native ws s) = trace s \<and>
   warning_buffer (replay_native ws s) = warning_buffer s @ ws"
  by (induction ws arbitrary: s) (simp_all add: c10_warn_def)

lemma since_append: "trace s' = trace s @ evs \<Longrightarrow> since s s' = evs"
  by (simp add: since_def)

lemma PyErr_Occurred_simps [simp]:
  "PyErr_Occurred (AutoGIL_acquire s) = PyErr_Occurred s"
  "PyErr_Occurred (AutoGIL_release s) = PyErr_Occurred s"
  "PyErr_Occurred (s\<lparr>warning_handler := h\<rparr>) = PyErr_Occurred s"
  "PyErr_Occurred (s\<lparr>warning_buffer := ws\<rparr>) = PyErr_Occurred s"
  "PyErr_Occurred (PyErr_SetString t msg s)"
  "\<not> PyErr_Occurred (PyErr_Clear s)"
  by (simp_all add: PyErr_Occurred_def)

lemma indicator_updates [simp]:
  "indicator (s\<lparr>warning_handler := h\<rparr>) = indicator s"
  "indicator (s\<lparr>warning_buffer := ws\<rparr>) = indicator s"
  "indicator (PyErr_SetString t msg s) = \<lparr>ptype = Some t, pvalue = Some (PyStr msg), ptraceback = None\<rparr>"
  "indicator (PyErr_Clear s) = python_error_init"
  by (simp_all add: indicator_def python_error_init_def)

lemma raise_foreign_warning_indicator [simp]:
  "indicator (raise_foreign_warning esc w s) = (if esc w then warning_error w else indicator s)"
  by (simp add: raise_foreign_warning_def Let_def warning_error_def)



lemma dtor_unwind:
  "PyErr_Occurred s \<Longrightarrow>
   EnforceWarningBuffer_dtor esc prev s =
     (None, AutoGIL_release (replay_native (warning_buffer s)
        (AutoGIL_acquire (s\<lparr>warning_handler := prev, warning_buffer := []\<rparr>))))"
  by (simp add: EnforceWarningBuffer_dtor_def Let_def)









section \<open>Claims about the macros\<close>

lemma indicator_fields [simp]:
  "ptype (indicator s) = curexc_type s"
  "pvalue (indicator s) = curexc_value s"
  "ptraceback (indicator s) = curexc_traceback s"
  by (simp_all add: indicator_def)

lemma installs_append [simp]: "installs (xs @ ys) = installs xs @ installs ys"
  by (induction xs rule: installs.induct) simp_all

lemma installs_of_others [simp]:
  "installs (map DecRef ps) = []" "installs (map IncRef ps) = []"
  "installs (map (NativeWarn h) ws) = []"
  by (induction ps, simp_all, induction ps, simp_all, induction ws, simp_all)

lemma python_error_dtor_fields [simp]:
  "indicator (python_error_dtor e s) = indicator s"
  "PyErr_Occurred (python_error_dtor e s) = PyErr_Occurred s"
  "gil_depth (python_error_dtor e s) = gil_depth s"
  "warning_handler (python_error_dtor e s) = warning_handler s"
  "warning_buffer (python_error_dtor e s) = warning_buffer s"
  by (simp_all add: python_error_dtor_def Let_def PyErr_Occurred_def)

lemma python_error_dtor_trace:
  "trace (python_error_dtor a s) =
     trace s @ (if ptype a = None \<and> pvalue a = None \<and> ptraceback a = None then []
                else [GilAcquire] @ map DecRef (nonnull [ptype a, pvalue a, ptraceback a]) @ [GilRelease])"
  by (simp add: python_error_dtor_def Let_def)

lemma destroy_exn_fields [simp]:
  "indicator (destroy_exn e s) = indicator s"
  "PyErr_Occurred (destroy_exn e s) = PyErr_Occurred s"
  "gil_depth (destroy_exn e s) = gil_depth s"
  "warning_handler (destroy_exn e s) = warning_handler s"
  "warning_buffer (destroy_exn e s) = warning_buffer s"
  by (simp_all add: destroy_exn_def)

lemma destroy_exn_trace:
  "\<exists>evs. trace (destroy_exn e s) = trace s @ evs \<and> installs evs = [] \<and>
      foreign_warnings evs = [] \<and> native_warnings evs = []"
  by (simp add: destroy_exn_def python_error_dtor_trace)

lemma dtor_unwind_fields:
  assumes "PyErr_Occurred s"
  shows "fst (EnforceWarningBuffer_dtor esc prev s) = None"
    and "indicator (snd (EnforceWarningBuffer_dtor esc prev s)) = indicator s"
    and "PyErr_Occurred (snd (EnforceWarningBuffer_dtor esc prev s))"
    and "warning_handler (snd (EnforceWarningBuffer_dtor esc prev s)) = prev"
  using assms by (simp_all add: dtor_unwind)

lemma dtor_unwind_trace:
  assumes "PyErr_Occurred s"
  shows "trace (snd (EnforceWarningBuffer_dtor esc prev s)) =
           trace s @ [GilAcquire] @
             (case prev of Buffering \<Rightarrow> [] | Handler h \<Rightarrow> map (NativeWarn h) (warning_buffer s)) @
             [GilRelease]"
proof (cases prev)
  case Buffering
  then have "warning_handler (AutoGIL_acquire (s\<lparr>warning_handler := prev, warning_buffer := []\<rparr>)) = Buffering"
    by simp
  from replay_native_Buffering [OF this, of "warning_buffer s"] Buffering assms
  show ?thesis by (simp add: dtor_unwind)
next
  case (Handler h)
  then have "warning_handler (AutoGIL_acquire (s\<lparr>warning_handler := prev, warning_buffer := []\<rparr>)) = Handler h"
    by simp
  from replay_native_Handler [OF this, of "warning_buffer s"] Handler assms
  show ?thesis by (simp add: dtor_unwind)
qed

lemma dtor_unwind_events:
  assumes "PyErr_Occurred s"
  shows "\<exists>evs. trace (snd (EnforceWarningBuffer_dtor esc prev s)) = trace s @ evs \<and>
           installs evs = [] \<and> foreign_warnings evs = [] \<and>
           native_warnings evs =
             (case prev of Buffering \<Rightarrow> [] | Handler h \<Rightarrow> map (Pair h) (warning_buffer s))"
  by (simp add: dtor_unwind_trace [OF assms] split: handler.split)

text \<open>
  A call whose body throws, and whose inner handler leaves the interpreter's error set:
  the buffer's destructor throws nothing, and the call ends as the inner handler ended,
  or as the outer handler ends on what the inner handler threw.
\<close>

lemma HANDLE_TH_ERRORS_caught:
  assumes "body (snd (EnforceWarningBuffer_ctor s)) = (Thrown e, s2)"
    and "inner e s2 = (r1, s3)" and "PyErr_Occurred s3"
  shows "HANDLE_TH_ERRORS inner outer esc body s =
     (case r1 of
        Returned v \<Rightarrow> (Returned v, snd (EnforceWarningBuffer_dtor esc (warning_handler s) s3))
      | Thrown e' \<Rightarrow> outer e' (snd (EnforceWarningBuffer_dtor esc (warning_handler s) s3))
      | Terminated \<Rightarrow> (Terminated, s3))"
proof -
  have c: "EnforceWarningBuffer_ctor s = (warning_handler s, snd (EnforceWarningBuffer_ctor s))"
    by (simp add: EnforceWarningBuffer_ctor_def)
  have d: "EnforceWarningBuffer_dtor esc (warning_handler s) s3 =
      (None, snd (EnforceWarningBuffer_dtor esc (warning_handler s) s3))"
    using dtor_unwind_fields(1) [OF assms(3), of esc "warning_handler s"]
    by (simp add: prod_eq_iff)
  show ?thesis
    apply (subst HANDLE_TH_ERRORS_def)
    apply (subst c)
    apply (simp only: split_conv Let_def assms(1) assms(2) outcome.case)
    apply (subst d)
    apply (simp only: split_conv option.case)
    done
qed

lemma CATCH_TH_ERRORS_native:
  "CATCH_TH_ERRORS pem r (thrown n) s =
     run_retstmnt r (thrown n) (PyErr_SetString (declared_mapping (kind_of n)) (pem (message_of n)) s)"
  by (cases n) (simp_all add: CATCH_TH_ERRORS_def catches_def)

lemma destroy_exn_native [simp]: "destroy_exn (thrown n) s = s"
  by (cases n) (simp_all add: destroy_exn_def catches_def)

lemma PYBIND_inner_native:
  "PYBIND_inner pem (thrown n) s =
     (Thrown (thrown n), PyErr_SetString (declared_mapping (kind_of n)) (pem (message_of n)) s)"
  by (cases n) (simp_all add: PYBIND_inner_def CATCH_TH_ERRORS_def run_retstmnt_def catches_def)

lemma PYBIND_outer_native:
  "PYBIND_outer pem (thrown n) s =
     (Thrown (thrown_error_already_set
        \<lparr>ptype = Some (declared_mapping (kind_of n)), pvalue = Some (PyStr (pem (message_of n))),
         ptraceback = None\<rparr>),
      snd (PyErr_Fetch (PyErr_SetString (declared_mapping (kind_of n)) (pem (message_of n)) s)))"
  by (cases n)
     (simp_all add: PYBIND_outer_def CATCH_TH_ERRORS_def run_retstmnt_def error_already_set_ctor_def
        split_def catches_def destroy_exn_def)

lemma RET_native:
  assumes "body (snd (EnforceWarningBuffer_ctor s)) = (Thrown (thrown n), s2)"
  shows "fst (END_HANDLE_TH_ERRORS_RET pem retval esc body s) = Returned retval"
    and "indicator (snd (END_HANDLE_TH_ERRORS_RET pem retval esc body s)) =
      \<lparr>ptype = Some (declared_mapping (kind_of n)), pvalue = Some (PyStr (pem (message_of n))),
       ptraceback = None\<rparr>"
proof -
  let ?s3 = "PyErr_SetString (declared_mapping (kind_of n)) (pem (message_of n)) s2"
  have inner: "CATCH_TH_ERRORS pem (Return retval) (thrown n) s2 = (Returned retval, ?s3)"
    by (simp add: CATCH_TH_ERRORS_native run_retstmnt_def)
  have occ: "PyErr_Occurred ?s3" by simp
  have run: "END_HANDLE_TH_ERRORS_RET pem retval esc body s =
      (Returned retval, snd (EnforceWarningBuffer_dtor esc (warning_handler s) ?s3))"
    unfolding END_HANDLE_TH_ERRORS_RET_def
    by (simp add: HANDLE_TH_ERRORS_caught
          [where body = body and inner = "CATCH_TH_ERRORS pem (Return retval)", OF assms inner occ])
  show "fst (END_HANDLE_TH_ERRORS_RET pem retval esc body s) = Returned retval"
    by (simp add: run)
  show "indicator (snd (END_HANDLE_TH_ERRORS_RET pem retval esc body s)) =
      \<lparr>ptype = Some (declared_mapping (kind_of n)), pvalue = Some (PyStr (pem (message_of n))),
       ptraceback = None\<rparr>"
    by (simp add: run dtor_unwind_fields(2) [OF occ])
qed

lemma PYBIND_native:
  assumes "body (snd (EnforceWarningBuffer_ctor s)) = (Thrown (thrown n), s2)"
  shows "fst (END_HANDLE_TH_ERRORS_PYBIND pem esc body s) =
      Thrown (thrown_error_already_set
        \<lparr>ptype = Some (declared_mapping (kind_of n)), pvalue = Some (PyStr (pem (message_of n))),
         ptraceback = None\<rparr>)"
proof -
  let ?s3 = "PyErr_SetString (declared_mapping (kind_of n)) (pem (message_of n)) s2"
  have inner: "PYBIND_inner pem (thrown n) s2 = (Thrown (thrown n) :: 'a outcome, ?s3)"
    by (simp add: PYBIND_inner_native)
  have occ: "PyErr_Occurred ?s3" by simp
  show ?thesis
    unfolding END_HANDLE_TH_ERRORS_PYBIND_def
    by (simp add: HANDLE_TH_ERRORS_caught [where body = body and inner = "PYBIND_inner pem", OF assms inner occ]
          PYBIND_outer_native)
qed

lemma RET_PyTorchError:
  assumes "catches K_PyTorchError e" "\<not> catches K_python_error e"
    "\<not> catches K_c10_IndexError e" "\<not> catches K_c10_Error e"
    and "body (snd (EnforceWarningBuffer_ctor s)) = (Thrown e, s2)"
  shows "fst (END_HANDLE_TH_ERRORS_RET pem retval esc body s) = Returned retval"
    and "indicator (snd (END_HANDLE_TH_ERRORS_RET pem retval esc body s)) =
      \<lparr>ptype = Some (python_type e), pvalue = Some (PyStr (pem (what e))), ptraceback = None\<rparr>"
proof -
  let ?s3 = "PyErr_SetString (python_type e) (pem (what e)) s2"
  have inner: "CATCH_TH_ERRORS pem (Return retval) e s2 = (Returned retval, ?s3)"
    using assms(1-4) by (simp add: CATCH_TH_ERRORS_def run_retstmnt_def destroy_exn_def)
  have occ: "PyErr_Occurred ?s3" by simp
  have run: "END_HANDLE_TH_ERRORS_RET pem retval esc body s =
      (Returned retval, snd (EnforceWarningBuffer_dtor esc (warning_handler s) ?s3))"
    unfolding END_HANDLE_TH_ERRORS_RET_def
    by (simp add: HANDLE_TH_ERRORS_caught
          [where body = body and inner = "CATCH_TH_ERRORS pem (Return retval)", OF assms(5) inner occ])
  show "fst (END_HANDLE_TH_ERRORS_RET pem retval esc body s) = Returned retval"
    by (simp add: run)
  show "indicator (snd (END_HANDLE_TH_ERRORS_RET pem retval esc body s)) =
      \<lparr>ptype = Some (python_type e), pvalue = Some (PyStr (pem (what e))), ptraceback = None\<rparr>"
    by (simp add: run dtor_unwind_fields(2) [OF occ])
qed

text \<open>
  A call of the return variant whose body throws an object that a translating clause
  takes: the call returns the failure value with the clause's error installed.
\<close>

lemma RET_caught_installs:
  assumes "body (snd (EnforceWarningBuffer_ctor s)) = (Thrown e, s2)"
    and "CATCH_TH_ERRORS pem (Return retval) e s2 = (Returned retval, PyErr_SetString t msg s2)"
  shows "fst (END_HANDLE_TH_ERRORS_RET pem retval esc body s) = Returned retval"
    and "indicator (snd (END_HANDLE_TH_ERRORS_RET pem retval esc body s)) =
      \<lparr>ptype = Some t, pvalue = Some (PyStr msg), ptraceback = None\<rparr>"
proof -
  let ?s3 = "PyErr_SetString t msg s2"
  have occ: "PyErr_Occurred ?s3" by simp
  have run: "END_HANDLE_TH_ERRORS_RET pem retval esc body s =
      (Returned retval, snd (EnforceWarningBuffer_dtor esc (warning_handler s) ?s3))"
    unfolding END_HANDLE_TH_ERRORS_RET_def
    by (simp add: HANDLE_TH_ERRORS_caught
          [where body = body and inner = "CATCH_TH_ERRORS pem (Return retval)", OF assms(1) assms(2) occ])
  show "fst (END_HANDLE_TH_ERRORS_RET pem retval esc body s) = Returned retval"
    by (simp add: run)
  show "indicator (snd (END_HANDLE_TH_ERRORS_RET pem retval esc body s)) =
      \<lparr>ptype = Some t, pvalue = Some (PyStr msg), ptraceback = None\<rparr>"
    by (simp add: run dtor_unwind_fields(2) [OF occ])
qed

lemma RET_generic_c10:
  assumes "catches K_c10_Error e" "\<not> catches K_python_error e" "\<not> catches K_c10_IndexError e"
    and "body (snd (EnforceWarningBuffer_ctor s)) = (Thrown e, s2)"
  shows "fst (END_HANDLE_TH_ERRORS_RET pem retval esc body s) = Returned retval"
    and "indicator (snd (END_HANDLE_TH_ERRORS_RET pem retval esc body s)) =
      \<lparr>ptype = Some PyExc_RuntimeError, pvalue = Some (PyStr (pem (what_without_backtrace e))),
       ptraceback = None\<rparr>"
proof -
  have inner: "CATCH_TH_ERRORS pem (Return retval) e s2 =
      (Returned retval, PyErr_SetString PyExc_RuntimeError (pem (what_without_backtrace e)) s2)"
    using assms(1-3) by (simp add: CATCH_TH_ERRORS_def run_retstmnt_def destroy_exn_def)
  show "fst (END_HANDLE_TH_ERRORS_RET pem retval esc body s) = Returned retval"
    by (rule RET_caught_installs(1) [where body = body, OF assms(4) inner])
  show "indicator (snd (END_HANDLE_TH_ERRORS_RET pem retval esc body s)) =
      \<lparr>ptype = Some PyExc_RuntimeError, pvalue = Some (PyStr (pem (what_without_backtrace e))),
       ptraceback = None\<rparr>"
    by (rule RET_caught_installs(2) [where body = body, OF assms(4) inner])
qed

lemma RET_generic_std:
  assumes "catches K_std_exception e" "\<not> catches K_python_error e"
    "\<not> catches K_c10_IndexError e" "\<not> catches K_c10_Error e" "\<not> catches K_PyTorchError e"
    and "body (snd (EnforceWarningBuffer_ctor s)) = (Thrown e, s2)"
  shows "fst (END_HANDLE_TH_ERRORS_RET pem retval esc body s) = Returned retval"
    and "indicator (snd (END_HANDLE_TH_ERRORS_RET pem retval esc body s)) =
      \<lparr>ptype = Some PyExc_RuntimeError, pvalue = Some (PyStr (pem (what e))), ptraceback = None\<rparr>"
proof -
  have inner: "CATCH_TH_ERRORS pem (Return retval) e s2 =
      (Returned retval, PyErr_SetString PyExc_RuntimeError (pem (what e)) s2)"
    using assms(1-5) by (simp add: CATCH_TH_ERRORS_def run_retstmnt_def destroy_exn_def)
  show "fst (END_HANDLE_TH_ERRORS_RET pem retval esc body s) = Returned retval"
    by (rule RET_caught_installs(1) [where body = body, OF assms(6) inner])
  show "indicator (snd (END_HANDLE_TH_ERRORS_RET pem retval esc body s)) =
      \<lparr>ptype = Some PyExc_RuntimeError, pvalue = Some (PyStr (pem (what e))), ptraceback = None\<rparr>"
    by (rule RET_caught_installs(2) [where body = body, OF assms(6) inner])
qed

text \<open>
  C8, amended. Whatever native error of the taxonomy the body throws (\<open>c10::IndexError\<close>,
  \<open>c10::Error\<close>, \<open>torch::IndexError\<close>, \<open>torch::TypeError\<close>, \<open>torch::ValueError\<close>, another
  \<open>std::exception\<close>), the return variant of the boundary ends with the failure value and
  the interpreter's error has the type the specification declares for the error's kind;
  the rethrowing variant ends by throwing \<open>py::error_already_set\<close>, which carries an error
  of that type. The same holds of any other \<open>PyTorchError\<close> subtype that is no
  \<open>python_error\<close> and no \<open>c10::Error\<close>: the installed error has the type its
  \<open>python_type()\<close> declares. A thrown object that is a \<open>c10::Error\<close> (and no
  \<open>python_error\<close>, no \<open>c10::IndexError\<close>) is installed as \<open>RuntimeError\<close>, also when it
  is a \<open>PyTorchError\<close> subtype that declares another type.
\<close>

theorem kind_round_trip:
  "(body (snd (EnforceWarningBuffer_ctor s)) = (Thrown (thrown n), s2) \<longrightarrow>
      fst (END_HANDLE_TH_ERRORS_RET pem retval esc body s) = Returned retval \<and>
      curexc_type (snd (END_HANDLE_TH_ERRORS_RET pem retval esc body s)) =
        Some (declared_mapping (kind_of n)) \<and>
      (\<exists>v. fst (END_HANDLE_TH_ERRORS_PYBIND pem esc body s) =
         Thrown (thrown_error_already_set
           \<lparr>ptype = Some (declared_mapping (kind_of n)), pvalue = v, ptraceback = None\<rparr>))) \<and>
   (catches K_PyTorchError e \<and> \<not> catches K_python_error e \<and> \<not> catches K_c10_IndexError e \<and>
    \<not> catches K_c10_Error e \<and> body (snd (EnforceWarningBuffer_ctor s)) = (Thrown e, s2) \<longrightarrow>
      fst (END_HANDLE_TH_ERRORS_RET pem retval esc body s) = Returned retval \<and>
      curexc_type (snd (END_HANDLE_TH_ERRORS_RET pem retval esc body s)) = Some (python_type e)) \<and>
   (catches K_c10_Error e \<and> \<not> catches K_python_error e \<and> \<not> catches K_c10_IndexError e \<and>
    body (snd (EnforceWarningBuffer_ctor s)) = (Thrown e, s2) \<longrightarrow>
      fst (END_HANDLE_TH_ERRORS_RET pem retval esc body s) = Returned retval \<and>
      curexc_type (snd (END_HANDLE_TH_ERRORS_RET pem retval esc body s)) = Some PyExc_RuntimeError)"
proof (intro conjI impI)
  assume b: "body (snd (EnforceWarningBuffer_ctor s)) = (Thrown (thrown n), s2)"
  show "fst (END_HANDLE_TH_ERRORS_RET pem retval esc body s) = Returned retval"
    by (rule RET_native(1) [where body = body, OF b])
  have "ptype (indicator (snd (END_HANDLE_TH_ERRORS_RET pem retval esc body s))) =
      Some (declared_mapping (kind_of n))"
    by (simp only: RET_native(2) [where body = body, OF b] python_error.simps)
  then show "curexc_type (snd (END_HANDLE_TH_ERRORS_RET pem retval esc body s)) =
      Some (declared_mapping (kind_of n))"
    by simp
  show "\<exists>v. fst (END_HANDLE_TH_ERRORS_PYBIND pem esc body s) =
      Thrown (thrown_error_already_set
        \<lparr>ptype = Some (declared_mapping (kind_of n)), pvalue = v, ptraceback = None\<rparr>)"
    using PYBIND_native [where body = body, OF b] by blast
next
  assume h: "catches K_PyTorchError e \<and> \<not> catches K_python_error e \<and>
    \<not> catches K_c10_IndexError e \<and> \<not> catches K_c10_Error e \<and>
    body (snd (EnforceWarningBuffer_ctor s)) = (Thrown e, s2)"
  then have c: "catches K_PyTorchError e" "\<not> catches K_python_error e"
    "\<not> catches K_c10_IndexError e" "\<not> catches K_c10_Error e"
    and b: "body (snd (EnforceWarningBuffer_ctor s)) = (Thrown e, s2)"
    by simp_all
  show "fst (END_HANDLE_TH_ERRORS_RET pem retval esc body s) = Returned retval"
    by (rule RET_PyTorchError(1) [where body = body, OF c b])
  have "ptype (indicator (snd (END_HANDLE_TH_ERRORS_RET pem retval esc body s))) =
      Some (python_type e)"
    by (simp only: RET_PyTorchError(2) [where body = body, OF c b] python_error.simps)
  then show "curexc_type (snd (END_HANDLE_TH_ERRORS_RET pem retval esc body s)) = Some (python_type e)"
    by simp
next
  assume h: "catches K_c10_Error e \<and> \<not> catches K_python_error e \<and>
    \<not> catches K_c10_IndexError e \<and> body (snd (EnforceWarningBuffer_ctor s)) = (Thrown e, s2)"
  then have c: "catches K_c10_Error e" "\<not> catches K_python_error e" "\<not> catches K_c10_IndexError e"
    and b: "body (snd (EnforceWarningBuffer_ctor s)) = (Thrown e, s2)"
    by simp_all
  show "fst (END_HANDLE_TH_ERRORS_RET pem retval esc body s) = Returned retval"
    by (rule RET_generic_c10(1) [where body = body, OF c b])
  have "ptype (indicator (snd (END_HANDLE_TH_ERRORS_RET pem retval esc body s))) =
      Some PyExc_RuntimeError"
    by (simp only: RET_generic_c10(2) [where body = body, OF c b] python_error.simps)
  then show "curexc_type (snd (END_HANDLE_TH_ERRORS_RET pem retval esc body s)) = Some PyExc_RuntimeError"
    by simp
qed

theorem kind_round_trip_witness:
  "throws (thrown (Torch_TypeError ''expected Tensor'')) (snd (EnforceWarningBuffer_ctor idle)) =
     (Thrown (thrown (Torch_TypeError ''expected Tensor'')) :: bool outcome,
      snd (EnforceWarningBuffer_ctor idle)) \<and>
   fst (END_HANDLE_TH_ERRORS_RET id False no_escalation
          (throws (thrown (Torch_TypeError ''expected Tensor''))) idle) = Returned False \<and>
   curexc_type (snd (END_HANDLE_TH_ERRORS_RET id False no_escalation
          (throws (thrown (Torch_TypeError ''expected Tensor''))) idle)) = Some PyExc_TypeError \<and>
   curexc_type (snd (END_HANDLE_TH_ERRORS_RET id False no_escalation
          (throws (thrown (C10_IndexError ''index 9'' ''frame #0''))) failed)) = Some PyExc_IndexError \<and>
   catches K_PyTorchError user_error \<and>
   curexc_type (snd (END_HANDLE_TH_ERRORS_RET id False no_escalation (throws user_error) idle)) =
     Some (PyObj 42) \<and>
   catches K_c10_Error derived_from_both \<and>
   curexc_type (snd (END_HANDLE_TH_ERRORS_RET id False no_escalation (throws derived_from_both) failed)) =
     Some PyExc_RuntimeError"
proof -
  have f: "throws derived_from_both (snd (EnforceWarningBuffer_ctor failed)) =
     (Thrown derived_from_both :: bool outcome, snd (EnforceWarningBuffer_ctor failed))"
    by (simp add: throws_def)
  have g: "catches K_c10_Error derived_from_both" "\<not> catches K_python_error derived_from_both"
    "\<not> catches K_c10_IndexError derived_from_both"
    by (simp_all add: catches_def derived_from_both_def)
  have a: "throws (thrown (Torch_TypeError ''expected Tensor'')) (snd (EnforceWarningBuffer_ctor idle)) =
     (Thrown (thrown (Torch_TypeError ''expected Tensor'')) :: bool outcome,
      snd (EnforceWarningBuffer_ctor idle))"
    by (simp add: throws_def)
  have b: "throws (thrown (C10_IndexError ''index 9'' ''frame #0'')) (snd (EnforceWarningBuffer_ctor failed)) =
     (Thrown (thrown (C10_IndexError ''index 9'' ''frame #0'')) :: bool outcome,
      snd (EnforceWarningBuffer_ctor failed))"
    by (simp add: throws_def)
  have c: "throws user_error (snd (EnforceWarningBuffer_ctor idle)) =
     (Thrown user_error :: bool outcome, snd (EnforceWarningBuffer_ctor idle))"
    by (simp add: throws_def)
  have d: "catches K_PyTorchError user_error" "\<not> catches K_python_error user_error"
    "\<not> catches K_c10_IndexError user_error" "\<not> catches K_c10_Error user_error"
    "python_type user_error = PyObj 42"
    by (simp_all add: catches_def user_error_def)
  show ?thesis
    using a c d
      kind_round_trip [where body = "throws (thrown (Torch_TypeError ''expected Tensor''))"
        and n = "Torch_TypeError ''expected Tensor''" and s = idle
        and ?s2.0 = "snd (EnforceWarningBuffer_ctor idle)"
        and pem = id and retval = False and esc = no_escalation]
      kind_round_trip [where body = "throws (thrown (C10_IndexError ''index 9'' ''frame #0''))"
        and n = "C10_IndexError ''index 9'' ''frame #0''" and s = failed
        and ?s2.0 = "snd (EnforceWarningBuffer_ctor failed)"
        and pem = id and retval = False and esc = no_escalation] b
      kind_round_trip [where body = "throws user_error :: world \<Rightarrow> bool outcome \<times> world"
        and e = user_error and s = idle and ?s2.0 = "snd (EnforceWarningBuffer_ctor idle)"
        and pem = id and retval = False and esc = no_escalation]
      f g
      kind_round_trip [where body = "throws derived_from_both :: world \<Rightarrow> bool outcome \<times> world"
        and e = derived_from_both and s = failed and ?s2.0 = "snd (EnforceWarningBuffer_ctor failed)"
        and pem = id and retval = False and esc = no_escalation]
    by simp
qed

text \<open>
  C8 as stated fails: an object of a class derived from both \<open>c10::Error\<close> and
  \<open>torch::PyTorchError\<close> is a \<open>PyTorchError\<close> subtype declaring \<open>TypeError\<close>, and the return
  variant of the boundary ends with \<open>RuntimeError\<close> installed.
\<close>

theorem declared_TypeError_installed_as_RuntimeError:
  "catches K_PyTorchError derived_from_both \<and>
   python_type derived_from_both = PyExc_TypeError \<and>
   fst (END_HANDLE_TH_ERRORS_RET id False no_escalation (throws derived_from_both) idle) =
     Returned False \<and>
   curexc_type (snd (END_HANDLE_TH_ERRORS_RET id False no_escalation (throws derived_from_both) idle)) =
     Some PyExc_RuntimeError"
  by (simp add: macro_defs run_defs)

text \<open>
  C9. The body throws a \<open>c10::Error\<close> with the message "index 5 out of bounds" and any
  backtrace, and \<open>processErrorMsg\<close> leaves that message as it is. Then the installed
  error is a \<open>RuntimeError\<close> whose message is exactly "index 5 out of bounds": the clause
  reads \<open>what_without_backtrace()\<close>, while \<open>what()\<close> has the backtrace after the message.
\<close>

theorem generic_error_message_without_backtrace:
  assumes "body (snd (EnforceWarningBuffer_ctor s)) =
             (Thrown (thrown (C10_Error ''index 5 out of bounds'' backtrace)), s2)"
    and "processErrorMsg ''index 5 out of bounds'' = ''index 5 out of bounds''"
  shows "fst (END_HANDLE_TH_ERRORS_RET processErrorMsg retval esc body s) = Returned retval \<and>
         indicator (snd (END_HANDLE_TH_ERRORS_RET processErrorMsg retval esc body s)) =
           \<lparr>ptype = Some PyExc_RuntimeError, pvalue = Some (PyStr ''index 5 out of bounds''),
            ptraceback = None\<rparr> \<and>
         fst (END_HANDLE_TH_ERRORS_PYBIND processErrorMsg esc body s) =
           Thrown (thrown_error_already_set
             \<lparr>ptype = Some PyExc_RuntimeError, pvalue = Some (PyStr ''index 5 out of bounds''),
              ptraceback = None\<rparr>) \<and>
         what (thrown (C10_Error ''index 5 out of bounds'' backtrace)) =
           ''index 5 out of bounds'' @ backtrace"
  using RET_native [where body = body and pem = processErrorMsg and retval = retval and esc = esc,
      OF assms(1)]
    PYBIND_native [where body = body and pem = processErrorMsg and esc = esc, OF assms(1)] assms(2)
  by simp

theorem generic_error_message_without_backtrace_witness:
  "throws (thrown (C10_Error ''index 5 out of bounds'' ''frame #0: at::index'')) (snd (EnforceWarningBuffer_ctor idle)) =
     (Thrown (thrown (C10_Error ''index 5 out of bounds'' ''frame #0: at::index'')) :: bool outcome,
      snd (EnforceWarningBuffer_ctor idle)) \<and>
   id ''index 5 out of bounds'' = ''index 5 out of bounds'' \<and>
   fst (END_HANDLE_TH_ERRORS_RET id False no_escalation
          (throws (thrown (C10_Error ''index 5 out of bounds'' ''frame #0: at::index''))) idle) =
     Returned False \<and>
   indicator (snd (END_HANDLE_TH_ERRORS_RET id False no_escalation
          (throws (thrown (C10_Error ''index 5 out of bounds'' ''frame #0: at::index''))) idle)) =
     \<lparr>ptype = Some PyExc_RuntimeError, pvalue = Some (PyStr ''index 5 out of bounds''),
      ptraceback = None\<rparr>"
proof -
  have a: "throws (thrown (C10_Error ''index 5 out of bounds'' ''frame #0: at::index'')) (snd (EnforceWarningBuffer_ctor idle)) =
     (Thrown (thrown (C10_Error ''index 5 out of bounds'' ''frame #0: at::index'')) :: bool outcome,
      snd (EnforceWarningBuffer_ctor idle))"
    by (simp add: throws_def)
  have b: "id ''index 5 out of bounds'' = ''index 5 out of bounds''" by simp
  show ?thesis
    using a generic_error_message_without_backtrace
        [where body = "throws (thrown (C10_Error ''index 5 out of bounds'' ''frame #0: at::index''))"
          and processErrorMsg = id and retval = False and esc = no_escalation, OF a b]
    by simp
qed

text \<open>
  C2, amended. \<open>CATCH_TH_ERRORS\<close> tries \<open>python_error\<close>, \<open>c10::IndexError\<close>, \<open>c10::Error\<close>,
  \<open>torch::PyTorchError\<close>, \<open>std::exception\<close>, in this order: the generic \<open>c10::Error\<close> clause
  comes before the \<open>PyTorchError\<close> clause. So the macro does what the specification's
  table says except on an object that is both a \<open>c10::Error\<close> and a \<open>PyTorchError\<close> (and
  neither a \<open>python_error\<close> nor a \<open>c10::IndexError\<close>), which the generic clause translates
  to \<open>RuntimeError\<close>. A \<open>PyTorchError\<close> that is not a \<open>c10::Error\<close> is translated to its
  own \<open>python_type()\<close>, never by a generic clause.
\<close>

theorem catch_clauses_in_header_order:
  "CATCH_TH_ERRORS pem r e s =
     (if catches K_c10_Error e \<and> catches K_PyTorchError e \<and>
         \<not> (catches K_python_error e \<or> catches K_c10_IndexError e)
      then run_retstmnt r e (PyErr_SetString PyExc_RuntimeError (pem (what_without_backtrace e)) s)
      else (case selector_table_spec pem e of
              NoMatch \<Rightarrow> (Thrown e, s)
            | PassThrough \<Rightarrow> run_retstmnt r e s
            | Install t msg \<Rightarrow> run_retstmnt r e (PyErr_SetString t msg s))) \<and>
   (catches K_PyTorchError e \<and> \<not> catches K_python_error e \<and> \<not> catches K_c10_IndexError e \<and>
    \<not> catches K_c10_Error e \<longrightarrow>
      CATCH_TH_ERRORS pem r e s = run_retstmnt r e (PyErr_SetString (python_type e) (pem (what e)) s))"
  by (simp add: CATCH_TH_ERRORS_def selector_table_spec_def)

theorem catch_clauses_in_header_order_witness:
  "CATCH_TH_ERRORS id (Return False) (thrown (Torch_ValueError ''negative size'')) idle =
     run_retstmnt (Return False) (thrown (Torch_ValueError ''negative size''))
       (PyErr_SetString PyExc_ValueError ''negative size'' idle) \<and>
   CATCH_TH_ERRORS id (Return False) derived_from_both idle =
     run_retstmnt (Return False) derived_from_both (PyErr_SetString PyExc_RuntimeError ''wrong dtype'' idle)"
  using catch_clauses_in_header_order [of id "Return False" "thrown (Torch_ValueError ''negative size'')" idle]
    catch_clauses_in_header_order [of id "Return False" derived_from_both idle]
  by (simp add: catches_def derived_from_both_def selector_table_spec_def CATCH_TH_ERRORS_def)

text \<open>
  C2 as stated fails: an object of a class derived from both \<open>c10::Error\<close> and
  \<open>torch::PyTorchError\<close>, declaring \<open>TypeError\<close>, is a \<open>PyTorchError\<close> subtype, the
  specification's table gives it \<open>TypeError\<close>, and the macro installs \<open>RuntimeError\<close>.
\<close>

theorem generic_clause_takes_PyTorchError_subtype:
  "catches K_PyTorchError derived_from_both \<and>
   python_type derived_from_both = PyExc_TypeError \<and>
   selector_table_spec id derived_from_both = Install PyExc_TypeError ''wrong dtype'' \<and>
   indicator (snd (CATCH_TH_ERRORS id (Return False) derived_from_both idle)) =
     \<lparr>ptype = Some PyExc_RuntimeError, pvalue = Some (PyStr ''wrong dtype''), ptraceback = None\<rparr>"
  by (simp add: catches_def derived_from_both_def selector_table_spec_def CATCH_TH_ERRORS_def
      run_retstmnt_def destroy_exn_def)

lemma RET_python_error:
  assumes "catches K_python_error e"
    and "body (snd (EnforceWarningBuffer_ctor s)) = (Thrown e, s2)"
    and "PyErr_Occurred s2"
  shows "fst (END_HANDLE_TH_ERRORS_RET pem retval esc body s) = Returned retval"
    and "indicator (snd (END_HANDLE_TH_ERRORS_RET pem retval esc body s)) = indicator s2"
    and "installs (since s2 (snd (END_HANDLE_TH_ERRORS_RET pem retval esc body s))) = []"
proof -
  let ?s3 = "destroy_exn e s2"
  let ?D = "snd (EnforceWarningBuffer_dtor esc (warning_handler s) ?s3)"
  have inner: "CATCH_TH_ERRORS pem (Return retval) e s2 = (Returned retval, ?s3)"
    using assms(1) by (simp add: CATCH_TH_ERRORS_def run_retstmnt_def)
  have occ: "PyErr_Occurred ?s3" using assms(3) by simp
  have run: "END_HANDLE_TH_ERRORS_RET pem retval esc body s = (Returned retval, ?D)"
    unfolding END_HANDLE_TH_ERRORS_RET_def
    by (simp add: HANDLE_TH_ERRORS_caught
          [where body = body and inner = "CATCH_TH_ERRORS pem (Return retval)", OF assms(2) inner occ])
  show "fst (END_HANDLE_TH_ERRORS_RET pem retval esc body s) = Returned retval"
    by (simp add: run)
  show "indicator (snd (END_HANDLE_TH_ERRORS_RET pem retval esc body s)) = indicator s2"
    by (simp add: run dtor_unwind_fields(2) [OF occ])
  obtain evs1 where evs1: "trace ?s3 = trace s2 @ evs1" "installs evs1 = []"
    using destroy_exn_trace [of e s2] by blast
  obtain evs2 where evs2: "trace ?D = trace ?s3 @ evs2" "installs evs2 = []"
    using dtor_unwind_events [OF occ, of esc "warning_handler s"] by blast
  have "trace ?D = trace s2 @ (evs1 @ evs2)" using evs1(1) evs2(1) by simp
  then have "since s2 ?D = evs1 @ evs2" by (rule since_append)
  then show "installs (since s2 (snd (END_HANDLE_TH_ERRORS_RET pem retval esc body s))) = []"
    using evs1(2) evs2(2) by (simp add: run)
qed

lemma PYBIND_python_error:
  assumes "catches K_python_error e"
    and "body (snd (EnforceWarningBuffer_ctor s)) = (Thrown e, s2)"
    and "PyErr_Occurred s2"
    and "\<not> catches K_error_already_set e" "\<not> catches K_builtin_exception e"
      "\<not> catches K_JITException e"
  shows "fst (END_HANDLE_TH_ERRORS_PYBIND pem esc body s) = Thrown (thrown_error_already_set (indicator s2))"
    and "installs (since s2 (snd (END_HANDLE_TH_ERRORS_PYBIND pem esc body s))) = []"
proof -
  let ?D = "snd (EnforceWarningBuffer_dtor esc (warning_handler s) s2)"
  have inner: "PYBIND_inner pem e s2 = (Thrown e :: 'a outcome, s2)"
    using assms(1,4-6) by (simp add: PYBIND_inner_def CATCH_TH_ERRORS_def run_retstmnt_def)
  have outer: "PYBIND_outer pem e ?D =
      (Thrown (thrown_error_already_set (indicator ?D)) :: 'a outcome, destroy_exn e (snd (PyErr_Fetch ?D)))"
    using assms(1,4-6)
    by (simp add: PYBIND_outer_def CATCH_TH_ERRORS_def run_retstmnt_def error_already_set_ctor_def
        split_def)
  have run: "END_HANDLE_TH_ERRORS_PYBIND pem esc body s =
      (Thrown (thrown_error_already_set (indicator ?D)), destroy_exn e (snd (PyErr_Fetch ?D)))"
    unfolding END_HANDLE_TH_ERRORS_PYBIND_def
    by (simp add: HANDLE_TH_ERRORS_caught
          [where body = body and inner = "PYBIND_inner pem", OF assms(2) inner assms(3)] outer)
  show "fst (END_HANDLE_TH_ERRORS_PYBIND pem esc body s) = Thrown (thrown_error_already_set (indicator s2))"
    by (simp add: run dtor_unwind_fields(2) [OF assms(3)])
  obtain evs1 where evs1: "trace ?D = trace s2 @ evs1" "installs evs1 = []"
    using dtor_unwind_events [OF assms(3), of esc "warning_handler s"] by blast
  obtain evs2 where evs2: "trace (destroy_exn e (snd (PyErr_Fetch ?D))) = trace (snd (PyErr_Fetch ?D)) @ evs2"
      "installs evs2 = []"
    using destroy_exn_trace [of e "snd (PyErr_Fetch ?D)"] by blast
  have "trace (destroy_exn e (snd (PyErr_Fetch ?D))) = trace s2 @ (evs1 @ [ErrFetch] @ evs2)"
    using evs1(1) evs2(1) by simp
  then have "since s2 (destroy_exn e (snd (PyErr_Fetch ?D))) = evs1 @ [ErrFetch] @ evs2"
    by (rule since_append)
  then show "installs (since s2 (snd (END_HANDLE_TH_ERRORS_PYBIND pem esc body s))) = []"
    using evs1(2) evs2(2) by (simp add: run)
qed

text \<open>
  C1, amended. When the body throws a \<open>python_error\<close> with the interpreter's error set,
  the boundary writes no error at all: the return variant ends with the failure value
  and the interpreter's error is the one that was set; the rethrowing variant throws
  \<open>py::error_already_set\<close> carrying that same error. When the body throws any other
  native error of the taxonomy, the translated error is installed whatever the
  interpreter's error was before.
\<close>

theorem python_error_clause_writes_nothing:
  "(catches K_python_error e \<and> body (snd (EnforceWarningBuffer_ctor s)) = (Thrown e, s2) \<and>
    PyErr_Occurred s2 \<longrightarrow>
      fst (END_HANDLE_TH_ERRORS_RET pem retval esc body s) = Returned retval \<and>
      indicator (snd (END_HANDLE_TH_ERRORS_RET pem retval esc body s)) = indicator s2 \<and>
      installs (since s2 (snd (END_HANDLE_TH_ERRORS_RET pem retval esc body s))) = [] \<and>
      (\<not> catches K_error_already_set e \<and> \<not> catches K_builtin_exception e \<and>
       \<not> catches K_JITException e \<longrightarrow>
         fst (END_HANDLE_TH_ERRORS_PYBIND pem esc body s) =
           Thrown (thrown_error_already_set (indicator s2)) \<and>
         installs (since s2 (snd (END_HANDLE_TH_ERRORS_PYBIND pem esc body s))) = [])) \<and>
   (body (snd (EnforceWarningBuffer_ctor s)) = (Thrown (thrown n), s2) \<longrightarrow>
      indicator (snd (END_HANDLE_TH_ERRORS_RET pem retval esc body s)) =
        \<lparr>ptype = Some (declared_mapping (kind_of n)), pvalue = Some (PyStr (pem (message_of n))),
         ptraceback = None\<rparr>)"
  using RET_python_error [where body = body and e = e and s = s and ?s2.0 = s2 and pem = pem
      and retval = retval and esc = esc]
    PYBIND_python_error [where body = body and e = e and s = s and ?s2.0 = s2 and pem = pem and esc = esc]
    RET_native(2) [where body = body and n = n and s = s and ?s2.0 = s2 and pem = pem
      and retval = retval and esc = esc]
  by blast

theorem python_error_clause_writes_nothing_witness:
  "fst (END_HANDLE_TH_ERRORS_RET id False no_escalation
          (fails_then_throws (thrown_python_error python_error_init)) idle) = Returned False \<and>
   indicator (snd (END_HANDLE_TH_ERRORS_RET id False no_escalation
          (fails_then_throws (thrown_python_error python_error_init)) idle)) =
     \<lparr>ptype = Some PyExc_ValueError, pvalue = Some (PyStr ''bad''), ptraceback = None\<rparr> \<and>
   fst (END_HANDLE_TH_ERRORS_PYBIND id no_escalation
          (fails_then_throws (thrown_python_error python_error_init)) idle) =
     (Thrown (thrown_error_already_set
        \<lparr>ptype = Some PyExc_ValueError, pvalue = Some (PyStr ''bad''), ptraceback = None\<rparr>)
      :: bool outcome) \<and>
   indicator (snd (END_HANDLE_TH_ERRORS_RET id False no_escalation
          (fails_then_throws (thrown (Torch_IndexError ''index 3''))) idle)) =
     \<lparr>ptype = Some PyExc_IndexError, pvalue = Some (PyStr ''index 3''), ptraceback = None\<rparr>"
proof -
  let ?s2 = "PyErr_SetString PyExc_ValueError ''bad'' (snd (EnforceWarningBuffer_ctor idle))"
  have a: "catches K_python_error (thrown_python_error python_error_init)"
    and a': "\<not> catches K_error_already_set (thrown_python_error python_error_init)"
      "\<not> catches K_builtin_exception (thrown_python_error python_error_init)"
      "\<not> catches K_JITException (thrown_python_error python_error_init)"
    by (simp_all add: catches_def thrown_python_error_def)
  have b: "fails_then_throws (thrown_python_error python_error_init) (snd (EnforceWarningBuffer_ctor idle)) =
      (Thrown (thrown_python_error python_error_init) :: bool outcome, ?s2)"
    by (simp add: fails_then_throws_def)
  have b': "fails_then_throws (thrown (Torch_IndexError ''index 3'')) (snd (EnforceWarningBuffer_ctor idle)) =
      (Thrown (thrown (Torch_IndexError ''index 3'')) :: bool outcome, ?s2)"
    by (simp add: fails_then_throws_def)
  have c: "PyErr_Occurred ?s2" by simp
  have d: "indicator ?s2 =
      \<lparr>ptype = Some PyExc_ValueError, pvalue = Some (PyStr ''bad''), ptraceback = None\<rparr>"
    by simp
  show ?thesis
    using a a' b b' c d
      python_error_clause_writes_nothing
        [where body = "fails_then_throws (thrown_python_error python_error_init) :: world \<Rightarrow> bool outcome \<times> world"
          and e = "thrown_python_error python_error_init" and s = idle and ?s2.0 = ?s2
          and pem = id and retval = False and esc = no_escalation]
      python_error_clause_writes_nothing
        [where body = "fails_then_throws (thrown (Torch_IndexError ''index 3'')) :: world \<Rightarrow> bool outcome \<times> world"
          and n = "Torch_IndexError ''index 3''" and s = idle and ?s2.0 = ?s2
          and pem = id and retval = False and esc = no_escalation]
    by simp
qed

text \<open>
  C1 as stated fails: the body sets \<open>ValueError("bad")\<close> and then throws a \<open>c10::Error\<close>;
  the error slot is populated when the exception is caught, and the call ends with
  \<open>RuntimeError("native failure")\<close> installed, not the error that was there.
\<close>

theorem native_error_overwrites_foreign_error:
  "indicator (snd (fails_then_throws (thrown (C10_Error ''native failure'' ''frame #0''))
       (snd (EnforceWarningBuffer_ctor idle)) :: bool outcome \<times> world)) =
     \<lparr>ptype = Some PyExc_ValueError, pvalue = Some (PyStr ''bad''), ptraceback = None\<rparr> \<and>
   indicator (snd (END_HANDLE_TH_ERRORS_RET id False no_escalation
       (fails_then_throws (thrown (C10_Error ''native failure'' ''frame #0''))) idle)) =
     \<lparr>ptype = Some PyExc_RuntimeError, pvalue = Some (PyStr ''native failure''), ptraceback = None\<rparr>"
proof -
  have b: "fails_then_throws (thrown (C10_Error ''native failure'' ''frame #0'')) (snd (EnforceWarningBuffer_ctor idle)) =
      (Thrown (thrown (C10_Error ''native failure'' ''frame #0'')) :: bool outcome,
       PyErr_SetString PyExc_ValueError ''bad'' (snd (EnforceWarningBuffer_ctor idle)))"
    by (simp add: fails_then_throws_def)
  show ?thesis
    using RET_native(2) [where body = "fails_then_throws (thrown (C10_Error ''native failure'' ''frame #0'')) :: world \<Rightarrow> bool outcome \<times> world"
        and pem = id and retval = False and esc = no_escalation, OF b]
    by (simp add: fails_then_throws_def)
qed

lemma PYBIND_JITException:
  assumes "catches K_JITException e" "\<not> catches K_error_already_set e"
    "\<not> catches K_builtin_exception e"
    and "body (snd (EnforceWarningBuffer_ctor s)) = (Thrown e, s2)"
  shows "END_HANDLE_TH_ERRORS_PYBIND pem esc body s =
     (Thrown e, PyErr_Clear (snd (EnforceWarningBuffer_dtor esc (warning_handler s)
        (PyErr_SetString PyExc_RuntimeError ''JITException'' s2))))"
proof -
  let ?s3 = "PyErr_SetString PyExc_RuntimeError ''JITException'' s2"
  have inner: "PYBIND_inner pem e s2 = (Thrown e :: 'a outcome, ?s3)"
    using assms(1-3) by (simp add: PYBIND_inner_def)
  have outer: "PYBIND_outer pem e w = (Thrown e :: 'a outcome, PyErr_Clear w)" for w
    using assms(1-3) by (simp add: PYBIND_outer_def)
  have occ: "PyErr_Occurred ?s3" by simp
  show ?thesis
    unfolding END_HANDLE_TH_ERRORS_PYBIND_def
    by (simp add: HANDLE_TH_ERRORS_caught
          [where body = body and inner = "PYBIND_inner pem", OF assms(4) inner occ] outer)
qed

text \<open>
  C7, amended. A \<open>torch::jit::JITException\<close> thrown by the body of the rethrowing boundary
  (\<open>END_HANDLE_TH_ERRORS_PYBIND\<close>, the variant with clauses for it) leaves the boundary as
  the same object. On the way the interpreter's error is written exactly twice: the
  sentinel \<open>RuntimeError("JITException")\<close>, then the clear; so the call ends with no error
  set. Between the two the warning buffer is destroyed with the sentinel set: it makes
  no foreign warning call and hands the buffered warnings to the restored handler.
  The return variants (\<open>END_HANDLE_TH_ERRORS_RET\<close>, \<open>END_HANDLE_TH_ERRORS\<close>) have no clause
  for it: there a \<open>JITException\<close>, being a \<open>std::exception\<close> and none of the classes of the
  earlier clauses, is taken by the last clause, which installs \<open>RuntimeError\<close> with the
  exception's message, and the call returns the failure value.
\<close>

theorem JITException_crosses_PYBIND_unchanged:
  assumes "catches K_JITException e" "\<not> catches K_error_already_set e"
    "\<not> catches K_builtin_exception e"
    and "body (snd (EnforceWarningBuffer_ctor s)) = (Thrown e, s2)"
  shows "fst (END_HANDLE_TH_ERRORS_PYBIND pem esc body s) = Thrown e \<and>
         indicator (snd (END_HANDLE_TH_ERRORS_PYBIND pem esc body s)) =
           \<lparr>ptype = None, pvalue = None, ptraceback = None\<rparr> \<and>
         installs (since s2 (snd (END_HANDLE_TH_ERRORS_PYBIND pem esc body s))) =
           [\<lparr>ptype = Some PyExc_RuntimeError, pvalue = Some (PyStr ''JITException''), ptraceback = None\<rparr>,
            \<lparr>ptype = None, pvalue = None, ptraceback = None\<rparr>] \<and>
         foreign_warnings (since s2 (snd (END_HANDLE_TH_ERRORS_PYBIND pem esc body s))) = [] \<and>
         native_warnings (since s2 (snd (END_HANDLE_TH_ERRORS_PYBIND pem esc body s))) =
           (case warning_handler s of Buffering \<Rightarrow> [] | Handler h \<Rightarrow> map (Pair h) (warning_buffer s2)) \<and>
         warning_handler (snd (END_HANDLE_TH_ERRORS_PYBIND pem esc body s)) = warning_handler s \<and>
         (catches K_std_exception e \<and> \<not> catches K_python_error e \<and> \<not> catches K_c10_IndexError e \<and>
          \<not> catches K_c10_Error e \<and> \<not> catches K_PyTorchError e \<longrightarrow>
            fst (END_HANDLE_TH_ERRORS_RET pem retval esc body s) = Returned retval \<and>
            indicator (snd (END_HANDLE_TH_ERRORS_RET pem retval esc body s)) =
              \<lparr>ptype = Some PyExc_RuntimeError, pvalue = Some (PyStr (pem (what e))),
               ptraceback = None\<rparr>)"
proof -
  let ?s3 = "PyErr_SetString PyExc_RuntimeError ''JITException'' s2"
  let ?D = "snd (EnforceWarningBuffer_dtor esc (warning_handler s) ?s3)"
  note run = PYBIND_JITException [where body = body and pem = pem and esc = esc, OF assms]
  have occ: "PyErr_Occurred ?s3" by simp
  obtain evs where evs: "trace ?D = trace ?s3 @ evs" "installs evs = []" "foreign_warnings evs = []"
      "native_warnings evs =
        (case warning_handler s of Buffering \<Rightarrow> [] | Handler h \<Rightarrow> map (Pair h) (warning_buffer ?s3))"
    using dtor_unwind_events [OF occ, of esc "warning_handler s"] by blast
  have "trace (PyErr_Clear ?D) =
      trace s2 @ (([IncRef PyExc_RuntimeError, IncRef (PyStr ''JITException''),
          ErrRestore (Some PyExc_RuntimeError) (Some (PyStr ''JITException'')) None] @
        map DecRef (nonnull [curexc_type s2, curexc_value s2, curexc_traceback s2])) @ evs @
        ([ErrRestore None None None] @
         map DecRef (nonnull [curexc_type ?D, curexc_value ?D, curexc_traceback ?D])))"
    using evs(1) by simp
  then have since: "since s2 (PyErr_Clear ?D) =
        ([IncRef PyExc_RuntimeError, IncRef (PyStr ''JITException''),
          ErrRestore (Some PyExc_RuntimeError) (Some (PyStr ''JITException'')) None] @
        map DecRef (nonnull [curexc_type s2, curexc_value s2, curexc_traceback s2])) @ evs @
        ([ErrRestore None None None] @
         map DecRef (nonnull [curexc_type ?D, curexc_value ?D, curexc_traceback ?D]))"
    by (rule since_append)
  have pybind: "fst (END_HANDLE_TH_ERRORS_PYBIND pem esc body s) = Thrown e \<and>
         indicator (snd (END_HANDLE_TH_ERRORS_PYBIND pem esc body s)) =
           \<lparr>ptype = None, pvalue = None, ptraceback = None\<rparr> \<and>
         installs (since s2 (snd (END_HANDLE_TH_ERRORS_PYBIND pem esc body s))) =
           [\<lparr>ptype = Some PyExc_RuntimeError, pvalue = Some (PyStr ''JITException''), ptraceback = None\<rparr>,
            \<lparr>ptype = None, pvalue = None, ptraceback = None\<rparr>] \<and>
         foreign_warnings (since s2 (snd (END_HANDLE_TH_ERRORS_PYBIND pem esc body s))) = [] \<and>
         native_warnings (since s2 (snd (END_HANDLE_TH_ERRORS_PYBIND pem esc body s))) =
           (case warning_handler s of Buffering \<Rightarrow> [] | Handler h \<Rightarrow> map (Pair h) (warning_buffer s2)) \<and>
         warning_handler (snd (END_HANDLE_TH_ERRORS_PYBIND pem esc body s)) = warning_handler s"
    unfolding run fst_conv snd_conv since
    using evs(2-4) dtor_unwind_fields(4) [OF occ, of esc "warning_handler s"]
    by (simp add: python_error_init_def split: handler.splits)
  have ret: "fst (END_HANDLE_TH_ERRORS_RET pem retval esc body s) = Returned retval \<and>
            indicator (snd (END_HANDLE_TH_ERRORS_RET pem retval esc body s)) =
              \<lparr>ptype = Some PyExc_RuntimeError, pvalue = Some (PyStr (pem (what e))),
               ptraceback = None\<rparr>"
    if "catches K_std_exception e \<and> \<not> catches K_python_error e \<and> \<not> catches K_c10_IndexError e \<and>
          \<not> catches K_c10_Error e \<and> \<not> catches K_PyTorchError e"
    using that RET_generic_std [where body = body and e = e and s = s and ?s2.0 = s2 and pem = pem
        and retval = retval and esc = esc] assms(4)
    by blast
  show ?thesis using pybind ret by blast
qed

theorem JITException_crosses_PYBIND_unchanged_witness:
  "fst (END_HANDLE_TH_ERRORS_PYBIND id deprecation_is_error
          (warns_then_throws (thrown_JITException ''stop iteration'')) idle) =
     (Thrown (thrown_JITException ''stop iteration'') :: bool outcome) \<and>
   indicator (snd (END_HANDLE_TH_ERRORS_PYBIND id deprecation_is_error
          (warns_then_throws (thrown_JITException ''stop iteration'') :: world \<Rightarrow> bool outcome \<times> world) idle)) =
     \<lparr>ptype = None, pvalue = None, ptraceback = None\<rparr> \<and>
   foreign_warnings (since (c10_warn deprecated (snd (EnforceWarningBuffer_ctor idle)))
     (snd (END_HANDLE_TH_ERRORS_PYBIND id deprecation_is_error
          (warns_then_throws (thrown_JITException ''stop iteration'') :: world \<Rightarrow> bool outcome \<times> world) idle))) = [] \<and>
   native_warnings (since (c10_warn deprecated (snd (EnforceWarningBuffer_ctor idle)))
     (snd (END_HANDLE_TH_ERRORS_PYBIND id deprecation_is_error
          (warns_then_throws (thrown_JITException ''stop iteration'') :: world \<Rightarrow> bool outcome \<times> world) idle))) =
     [(0, deprecated)] \<and>
   fst (END_HANDLE_TH_ERRORS_RET id False deprecation_is_error
          (warns_then_throws (thrown_JITException ''stop iteration'')) idle) = Returned False \<and>
   indicator (snd (END_HANDLE_TH_ERRORS_RET id False deprecation_is_error
          (warns_then_throws (thrown_JITException ''stop iteration'')) idle)) =
     \<lparr>ptype = Some PyExc_RuntimeError, pvalue = Some (PyStr ''stop iteration''), ptraceback = None\<rparr>"
proof -
  have a: "catches K_JITException (thrown_JITException ''stop iteration'')"
    "\<not> catches K_error_already_set (thrown_JITException ''stop iteration'')"
    "\<not> catches K_builtin_exception (thrown_JITException ''stop iteration'')"
    by (simp_all add: catches_def thrown_JITException_def)
  have a': "catches K_std_exception (thrown_JITException ''stop iteration'')"
    "\<not> catches K_python_error (thrown_JITException ''stop iteration'')"
    "\<not> catches K_c10_IndexError (thrown_JITException ''stop iteration'')"
    "\<not> catches K_c10_Error (thrown_JITException ''stop iteration'')"
    "\<not> catches K_PyTorchError (thrown_JITException ''stop iteration'')"
    "what (thrown_JITException ''stop iteration'') = ''stop iteration''"
    by (simp_all add: catches_def thrown_JITException_def)
  have b: "warns_then_throws (thrown_JITException ''stop iteration'') (snd (EnforceWarningBuffer_ctor idle)) =
      (Thrown (thrown_JITException ''stop iteration'') :: bool outcome,
       c10_warn deprecated (snd (EnforceWarningBuffer_ctor idle)))"
    by (simp add: warns_then_throws_def)
  show ?thesis
    using a' JITException_crosses_PYBIND_unchanged
      [where body = "warns_then_throws (thrown_JITException ''stop iteration'') :: world \<Rightarrow> bool outcome \<times> world"
        and pem = id and esc = deprecation_is_error and retval = False, OF a b]
    by (simp add: idle_def c10_warn_def EnforceWarningBuffer_ctor_def)
qed

text \<open>
  C7 as stated fails: through the return variant of the boundary a \<open>JITException\<close> does
  not cross. It is reported: the call returns the failure value with
  \<open>RuntimeError("stop iteration")\<close> installed.
\<close>

theorem JITException_reported_by_return_variant:
  "catches K_JITException (thrown_JITException ''stop iteration'') \<and>
   fst (END_HANDLE_TH_ERRORS_RET id False no_escalation
     (throws (thrown_JITException ''stop iteration'')) idle) = Returned False \<and>
   indicator (snd (END_HANDLE_TH_ERRORS_RET id False no_escalation
     (throws (thrown_JITException ''stop iteration'')) idle)) =
     \<lparr>ptype = Some PyExc_RuntimeError, pvalue = Some (PyStr ''stop iteration''), ptraceback = None\<rparr>"
  by (simp add: macro_defs run_defs)

end
